theory Spec2Isabelle
  imports Main
begin

section \<open>JSON documents as Python's \<open>json\<close> module loads them\<close>

text \<open>
  \<open>json.load\<close> yields \<open>None\<close>, \<open>bool\<close>, \<open>int\<close>, \<open>float\<close>, \<open>str\<close>, \<open>list\<close> and
  \<open>dict\<close> values. Floats are carried as values of an uninterpreted type: the installer
  never computes with them. A \<open>dict\<close> keeps insertion order, so it is an association
  list; lookup finds the first binding of a key and assignment replaces it in place or
  appends a new binding at the end.
\<close>

typedecl pyfloat

datatype json =
    JNull
  | JBool bool
  | JInt int
  | JFloat pyfloat
  | JStr string
  | JArr "json list"
  | JObj "(string \<times> json) list"

definition dict_get :: "'k \<Rightarrow> ('k \<times> 'v) list \<Rightarrow> 'v option" where
  "dict_get k d = map_of d k"

definition dict_contains :: "'k \<Rightarrow> ('k \<times> 'v) list \<Rightarrow> bool" where
  "dict_contains k d = (dict_get k d \<noteq> None)"

fun dict_set :: "'k \<Rightarrow> 'v \<Rightarrow> ('k \<times> 'v) list \<Rightarrow> ('k \<times> 'v) list" where
  "dict_set k v [] = [(k, v)]"
| "dict_set k v (b # d) = (if fst b = k then (k, v) # d else b # dict_set k v d)"

text \<open>\<open>d.update(other)\<close>: assign every item of \<open>other\<close>, in order.\<close>

fun dict_update :: "('k \<times> 'v) list \<Rightarrow> ('k \<times> 'v) list \<Rightarrow> ('k \<times> 'v) list" where
  "dict_update d [] = d"
| "dict_update d (b # other) = dict_update (dict_set (fst b) (snd b) d) other"

section \<open>Exceptions\<close>

text \<open>
  Every constructor is a subclass of Python's \<open>Exception\<close>, so an
  \<open>except Exception\<close> clause catches each of them. \<open>SystemExit\<close> is not one and is
  modelled apart, as the exit code of the run.
\<close>

datatype exn = TypeError | KeyError | ValueError | OSError | UnicodeDecodeError

definition exn_bind :: "exn + 'a \<Rightarrow> ('a \<Rightarrow> exn + 'b) \<Rightarrow> exn + 'b" where
  "exn_bind m f = (case m of Inl e \<Rightarrow> Inl e | Inr x \<Rightarrow> f x)"

section \<open>Python's subscript and membership operators on loaded values\<close>

text \<open>\<open>k in s\<close> for two strings is the substring test.\<close>

fun substring :: "string \<Rightarrow> string \<Rightarrow> bool" where
  "substring k [] = (k = [])"
| "substring k (c # cs) = (take (length k) (c # cs) = k \<or> substring k cs)"

text \<open>
  \<open>k in x\<close> with a string \<open>k\<close>: key membership on a dict, element membership on a
  list, substring on a string; \<open>TypeError\<close> on \<open>None\<close>, booleans and numbers, which are
  not iterable.
\<close>

fun py_contains :: "string \<Rightarrow> json \<Rightarrow> exn + bool" where
  "py_contains k (JObj d) = Inr (dict_contains k d)"
| "py_contains k (JArr xs) = Inr (JStr k \<in> set xs)"
| "py_contains k (JStr s) = Inr (substring k s)"
| "py_contains k JNull = Inl TypeError"
| "py_contains k (JBool b) = Inl TypeError"
| "py_contains k (JInt i) = Inl TypeError"
| "py_contains k (JFloat f) = Inl TypeError"

text \<open>\<open>x[k]\<close> with a string \<open>k\<close>: only a dict can be subscripted by a string.\<close>

fun py_getitem :: "string \<Rightarrow> json \<Rightarrow> exn + json" where
  "py_getitem k (JObj d) = (case dict_get k d of None \<Rightarrow> Inl KeyError | Some v \<Rightarrow> Inr v)"
| "py_getitem k (JArr xs) = Inl TypeError"
| "py_getitem k (JStr s) = Inl TypeError"
| "py_getitem k JNull = Inl TypeError"
| "py_getitem k (JBool b) = Inl TypeError"
| "py_getitem k (JInt i) = Inl TypeError"
| "py_getitem k (JFloat f) = Inl TypeError"

text \<open>\<open>x[k] = v\<close> with a string \<open>k\<close>; the result is the mutated object.\<close>

fun py_setitem :: "string \<Rightarrow> json \<Rightarrow> json \<Rightarrow> exn + json" where
  "py_setitem k v (JObj d) = Inr (JObj (dict_set k v d))"
| "py_setitem k v (JArr xs) = Inl TypeError"
| "py_setitem k v (JStr s) = Inl TypeError"
| "py_setitem k v JNull = Inl TypeError"
| "py_setitem k v (JBool b) = Inl TypeError"
| "py_setitem k v (JInt i) = Inl TypeError"
| "py_setitem k v (JFloat f) = Inl TypeError"

text \<open>The statement \<open>if k not in x: x[k] = {}\<close>.\<close>

definition ensure_dict :: "string \<Rightarrow> json \<Rightarrow> exn + json" where
  "ensure_dict k x =
     exn_bind (py_contains k x)
       (\<lambda>present. if \<not> present then py_setitem k (JObj []) x else Inr x)"

text \<open>
  The statement \<open>x[k][name] = v\<close>: \<open>x[k]\<close> is evaluated, the object it refers to is
  mutated, and the mutation is visible through \<open>x\<close>; the last step writes the mutated
  object back at \<open>k\<close>, which is what sharing the reference amounts to.
\<close>

definition setitem_in :: "string \<Rightarrow> string \<Rightarrow> json \<Rightarrow> json \<Rightarrow> exn + json" where
  "setitem_in k name v x =
     exn_bind (py_getitem k x)
       (\<lambda>inner. exn_bind (py_setitem name v inner)
          (\<lambda>inner'. py_setitem k inner' x))"

section \<open>The shape adapters: the \<open>update\<close> closures\<close>

text \<open>
  Each closure mutates the loaded document in place and may raise; the model returns the
  mutated document or the exception. \<open>server_config\<close> is the entry dict.
\<close>

definition update_in_vscode_workspace :: "string \<Rightarrow> (string \<times> json) list \<Rightarrow> json \<Rightarrow> exn + json" where
  "update_in_vscode_workspace server_name server_config data =
     exn_bind (ensure_dict ''servers'' data)
       (\<lambda>data1. setitem_in ''servers'' server_name (JObj server_config) data1)"

definition update_in_vscode_user :: "string \<Rightarrow> (string \<times> json) list \<Rightarrow> json \<Rightarrow> exn + json" where
  "update_in_vscode_user server_name server_config data =
     exn_bind (ensure_dict ''mcp'' data)
       (\<lambda>data1. exn_bind (py_getitem ''mcp'' data1)
          (\<lambda>mcp. exn_bind (ensure_dict ''servers'' mcp)
             (\<lambda>mcp1. exn_bind (setitem_in ''servers'' server_name (JObj server_config) mcp1)
                (\<lambda>mcp2. py_setitem ''mcp'' mcp2 data1))))"

definition update_in_claude_config ::
  "bool \<Rightarrow> string \<Rightarrow> (string \<times> json) list \<Rightarrow> json \<Rightarrow> exn + json" where
  "update_in_claude_config is_claude_code server_name server_config data =
     exn_bind (ensure_dict ''mcpServers'' data)
       (\<lambda>data1.
          let config = server_config;
              config = (if is_claude_code then dict_set ''type'' (JStr ''stdio'') config
                        else config)
          in setitem_in ''mcpServers'' server_name (JObj config) data1)"

section \<open>Paths\<close>

text \<open>
  A \<open>pathlib\<close> path is the list of its components; the empty list is the path with no
  component, whose name is empty. \<open>name_suffix\<close> is \<open>PurePath.suffix\<close>: the part of the
  name from its last dot on, when that dot is neither the first nor the last character.
  \<open>with_suffix\<close> replaces that suffix, or appends when there is none, and raises
  \<open>ValueError\<close> on a path with an empty name.
\<close>

type_synonym path = "string list"

definition path_name :: "path \<Rightarrow> string" where
  "path_name p = (if p = [] then [] else last p)"

definition rfind_dot :: "string \<Rightarrow> nat option" where
  "rfind_dot name =
     (if CHR ''.'' \<in> set name
      then Some (length name - length (takeWhile (\<lambda>c. c \<noteq> CHR ''.'') (rev name)) - 1)
      else None)"

definition name_suffix :: "string \<Rightarrow> string" where
  "name_suffix name =
     (case rfind_dot name of
        None \<Rightarrow> []
      | Some i \<Rightarrow> if 0 < i \<and> i < length name - 1 then drop i name else [])"

definition with_suffix :: "path \<Rightarrow> string \<Rightarrow> exn + path" where
  "with_suffix p suffix =
     (let name = path_name p in
      if name = [] then Inl ValueError
      else
        let old_suffix = name_suffix name;
            name' = (if old_suffix = [] then name @ suffix
                     else take (length name - length old_suffix) name @ suffix)
        in Inr (butlast p @ [name']))"

section \<open>The file system, the console and the environment's answers\<close>

text \<open>
  The world holds the regular files (a path exists when it has contents) and what has
  been printed. Directories are not modelled: \<open>mkdir\<close> either raises or changes nothing
  that is observed here.
\<close>

datatype error_note = Path_not_available | Raised exn

datatype message =
    Warning_parse string
  | Warning_backup
  | Error_write string
  | Configuring string
  | Configured string
  | Error_configuring string "error_note option"
  | Processing_server string
  | Binary_not_found path
  | Please_build

record world =
  files :: "path \<Rightarrow> string option"
  out :: "message list"

definition say :: "message \<Rightarrow> world \<Rightarrow> world" where
  "say m w = w\<lparr>out := out w @ [m]\<rparr>"

text \<open>
  How one attempt to write a file ends: it succeeds, it raises before the file is touched
  (the open fails, or the bytes to copy cannot be read), or it raises after the file was
  opened for writing, leaving a truncated or partial file.
\<close>

datatype io_outcome = Succeeds | Fails_untouched | Fails_leaving string

definition write_effect ::
  "io_outcome \<Rightarrow> path \<Rightarrow> string \<Rightarrow> (path \<Rightarrow> string option) \<Rightarrow> (path \<Rightarrow> string option)" where
  "write_effect r p b fs =
     (case r of
        Succeeds \<Rightarrow> fs(p \<mapsto> b)
      | Fails_untouched \<Rightarrow> fs
      | Fails_leaving residue \<Rightarrow> fs(p \<mapsto> residue))"

text \<open>
  One record per call of \<open>update_json_file\<close>: what the operating system answers at each
  of its input/output steps.
\<close>

record io_faults =
  read_fails :: bool
  backup_write :: io_outcome
  mkdir_fails :: bool
  config_write :: io_outcome
  restore_write :: io_outcome

definition no_faults :: io_faults where
  "no_faults = \<lparr>read_fails = False, backup_write = Succeeds, mkdir_fails = False,
                 config_write = Succeeds, restore_write = Succeeds\<rparr>"

text \<open>
  The library functions the installer calls and does not define: \<open>json.load\<close> on the
  bytes of a file (a value, \<open>JSONDecodeError\<close>, or another exception such as
  \<open>UnicodeDecodeError\<close>), \<open>json.dump\<close> with \<open>indent=2\<close>, and \<open>str(p.resolve())\<close>.
\<close>

datatype load_result = Parsed json | JSONDecodeError | Load_raises exn

record library =
  json_load :: "string \<Rightarrow> load_result"
  json_dump :: "json \<Rightarrow> string"
  resolve_str :: "path \<Rightarrow> string"

section \<open>\<open>update_json_file\<close>\<close>

text \<open>
  The read step: a missing file is the empty document; an existing file is opened (which
  may raise) and parsed; only \<open>JSONDecodeError\<close> is caught, with a warning.
\<close>

definition read_step ::
  "library \<Rightarrow> path \<Rightarrow> string \<Rightarrow> io_faults \<Rightarrow> world \<Rightarrow> (exn + json) \<times> world" where
  "read_step lib p description io w =
     (case files w p of
        None \<Rightarrow> (Inr (JObj []), w)
      | Some b \<Rightarrow>
          if read_fails io then (Inl OSError, w)
          else
            (case json_load lib b of
               Parsed data \<Rightarrow> (Inr data, w)
             | JSONDecodeError \<Rightarrow> (Inr (JObj []), say (Warning_parse description) w)
             | Load_raises e \<Rightarrow> (Inl e, w)))"

text \<open>
  The backup step, only when the file exists: \<open>with_suffix\<close> is outside the \<open>try\<close>, the
  copy is inside it and a failure of the copy is a warning.
\<close>

definition backup_step :: "path \<Rightarrow> io_faults \<Rightarrow> world \<Rightarrow> (exn + unit) \<times> world" where
  "backup_step p io w =
     (case files w p of
        None \<Rightarrow> (Inr (), w)
      | Some b \<Rightarrow>
          (case with_suffix p ''.json.bak'' of
             Inl e \<Rightarrow> (Inl e, w)
           | Inr backup_path \<Rightarrow>
               let w1 = w\<lparr>files := write_effect (backup_write io) backup_path b (files w)\<rparr>
               in (Inr (), if backup_write io = Succeeds then w1 else say Warning_backup w1)))"

text \<open>
  The write step: on success the file holds the dumped document and a newline. On
  failure the backup, if one exists, is copied back (a failure of that copy is
  swallowed), the error is printed and the result is \<open>False\<close>.
\<close>

definition write_step ::
  "library \<Rightarrow> path \<Rightarrow> json \<Rightarrow> string \<Rightarrow> io_faults \<Rightarrow> world \<Rightarrow> (exn + bool) \<times> world" where
  "write_step lib p data description io w =
     (let content = json_dump lib data @ [CHR 0x0A];
          w1 = w\<lparr>files := write_effect (config_write io) p content (files w)\<rparr>
      in if config_write io = Succeeds then (Inr True, w1)
         else
           (case with_suffix p ''.json.bak'' of
              Inl e \<Rightarrow> (Inl e, w1)
            | Inr backup_path \<Rightarrow>
                let w2 = (case files w1 backup_path of
                            None \<Rightarrow> w1
                          | Some saved \<Rightarrow>
                              w1\<lparr>files := write_effect (restore_write io) p saved (files w1)\<rparr>)
                in (Inr False, say (Error_write description) w2)))"

definition update_json_file ::
  "library \<Rightarrow> path \<Rightarrow> (json \<Rightarrow> exn + json) \<Rightarrow> string \<Rightarrow> io_faults \<Rightarrow> world
     \<Rightarrow> (exn + bool) \<times> world" where
  "update_json_file lib p update_func description io w =
     (case read_step lib p description io w of
        (Inl e, w1) \<Rightarrow> (Inl e, w1)
      | (Inr data, w1) \<Rightarrow>
          (case backup_step p io w1 of
             (Inl e, w2) \<Rightarrow> (Inl e, w2)
           | (Inr u, w2) \<Rightarrow>
               (case update_func data of
                  Inl e \<Rightarrow> (Inl e, w2)
                | Inr data' \<Rightarrow>
                    if mkdir_fails io then (Inl OSError, w2)
                    else write_step lib p data' description io w2)))"

section \<open>The per-target updaters\<close>

definition update_vscode_workspace ::
  "library \<Rightarrow> path \<Rightarrow> string \<Rightarrow> (string \<times> json) list \<Rightarrow> io_faults \<Rightarrow> world
     \<Rightarrow> (exn + bool) \<times> world" where
  "update_vscode_workspace lib p server_name server_config io w =
     update_json_file lib p (update_in_vscode_workspace server_name server_config)
       ''VS Code workspace config'' io w"

definition update_vscode_user ::
  "library \<Rightarrow> path \<Rightarrow> string \<Rightarrow> (string \<times> json) list \<Rightarrow> io_faults \<Rightarrow> world
     \<Rightarrow> (exn + bool) \<times> world" where
  "update_vscode_user lib p server_name server_config io w =
     update_json_file lib p (update_in_vscode_user server_name server_config)
       ''VS Code user settings'' io w"

definition update_claude_config ::
  "library \<Rightarrow> path \<Rightarrow> string \<Rightarrow> (string \<times> json) list \<Rightarrow> bool \<Rightarrow> io_faults \<Rightarrow> world
     \<Rightarrow> (exn + bool) \<times> world" where
  "update_claude_config lib p server_name server_config is_claude_code io w =
     (let desc = (if is_claude_code then ''Claude Code config'' else ''Claude/Cursor config'')
      in update_json_file lib p
           (update_in_claude_config is_claude_code server_name server_config) desc io w)"

section \<open>Target paths\<close>

record paths =
  vscode_user_settings :: "path option"
  vscode_workspace :: "path option"
  claude_desktop :: "path option"
  claude_code :: "path option"
  cursor :: "path option"

text \<open>
  \<open>system\<close> is \<open>platform.system()\<close>, \<open>home\<close> is \<open>Path.home()\<close>, \<open>appdata\<close> and
  \<open>userprofile\<close> are the paths made of the two environment variables (the path with
  no component when a variable is unset).
\<close>

definition get_platform_paths :: "string \<Rightarrow> path \<Rightarrow> path \<Rightarrow> path \<Rightarrow> paths" where
  "get_platform_paths system home appdata userprofile =
     (if system = ''Windows'' then
        \<lparr>vscode_user_settings = Some (appdata @ [''Code'', ''User'', ''settings.json'']),
         vscode_workspace = Some [''.vscode'', ''mcp.json''],
         claude_desktop = Some (appdata @ [''Claude'', ''claude_desktop_config.json'']),
         claude_code = Some (userprofile @ [''.claude.json'']),
         cursor = Some (appdata @ [''Cursor'', ''mcp.json''])\<rparr>
      else if system = ''Darwin'' then
        \<lparr>vscode_user_settings =
           Some (home @ [''Library'', ''Application Support'', ''Code'', ''User'', ''settings.json'']),
         vscode_workspace = Some [''.vscode'', ''mcp.json''],
         claude_desktop =
           Some (home @ [''Library'', ''Application Support'', ''Claude'',
                         ''claude_desktop_config.json'']),
         claude_code = Some (home @ [''.claude.json'']),
         cursor = Some (home @ [''.cursor'', ''mcp.json''])\<rparr>
      else
        \<lparr>vscode_user_settings = Some (home @ [''.config'', ''Code'', ''User'', ''settings.json'']),
         vscode_workspace = Some [''.vscode'', ''mcp.json''],
         claude_desktop = Some (home @ [''.config'', ''Claude'', ''claude_desktop_config.json'']),
         claude_code = Some (home @ [''.claude.json'']),
         cursor = Some (home @ [''.cursor'', ''mcp.json''])\<rparr>)"

section \<open>\<open>update_vscode\<close> and \<open>update_environment\<close>\<close>

text \<open>
  \<open>update_vscode\<close> tries the workspace file inside \<open>try ... except Exception: pass\<close>
  and returns \<open>True\<close> at once when that call returns \<open>True\<close>; in every other case it
  goes on to the user settings. \<open>io_ws\<close> and \<open>io_user\<close> are the environment's answers
  to the first and to the second call of \<open>update_json_file\<close>.
\<close>

definition update_vscode ::
  "library \<Rightarrow> paths \<Rightarrow> string \<Rightarrow> (string \<times> json) list \<Rightarrow> io_faults \<Rightarrow> io_faults \<Rightarrow> world
     \<Rightarrow> (exn + bool) \<times> world" where
  "update_vscode lib ps server_name server_config io_ws io_user w =
     (let fall_back = (\<lambda>w'.
            case vscode_user_settings ps of
              Some user_path \<Rightarrow> update_vscode_user lib user_path server_name server_config io_user w'
            | None \<Rightarrow> (Inr False, w'))
      in case vscode_workspace ps of
           Some workspace_path \<Rightarrow>
             (case update_vscode_workspace lib workspace_path server_name server_config io_ws w of
                (Inr True, w1) \<Rightarrow> (Inr True, w1)
              | (Inr False, w1) \<Rightarrow> fall_back w1
              | (Inl e, w1) \<Rightarrow> fall_back w1)
         | None \<Rightarrow> fall_back w)"

text \<open>
  \<open>update_environment\<close> computes \<open>success\<close> and \<open>error\<close> inside
  \<open>try ... except Exception as e: error = str(e)\<close>, prints one line and returns the
  success flag. An environment name other than the four changes neither variable.
\<close>

definition attempt_environment ::
  "library \<Rightarrow> string \<Rightarrow> paths \<Rightarrow> string \<Rightarrow> (string \<times> json) list \<Rightarrow> io_faults \<Rightarrow> io_faults
     \<Rightarrow> world \<Rightarrow> (exn + bool \<times> error_note option) \<times> world" where
  "attempt_environment lib env ps server_name server_config io1 io2 w =
     (let claude = (\<lambda>target is_claude_code.
            case target of
              Some p \<Rightarrow>
                (case update_claude_config lib p server_name server_config is_claude_code io1 w of
                   (Inl e, w1) \<Rightarrow> (Inl e, w1)
                 | (Inr success, w1) \<Rightarrow> (Inr (success, None), w1))
            | None \<Rightarrow> (Inr (False, Some Path_not_available), w))
      in if env = ''VS Code'' then
           (case update_vscode lib ps server_name server_config io1 io2 w of
              (Inl e, w1) \<Rightarrow> (Inl e, w1)
            | (Inr success, w1) \<Rightarrow> (Inr (success, None), w1))
         else if env = ''Claude Desktop'' then claude (claude_desktop ps) False
         else if env = ''Claude Code'' then claude (claude_code ps) True
         else if env = ''Cursor'' then claude (cursor ps) False
         else (Inr (False, None), w))"

definition update_environment ::
  "library \<Rightarrow> string \<Rightarrow> paths \<Rightarrow> string \<Rightarrow> (string \<times> json) list \<Rightarrow> io_faults \<Rightarrow> io_faults
     \<Rightarrow> world \<Rightarrow> bool \<times> world" where
  "update_environment lib env ps server_name server_config io1 io2 w =
     (let w0 = say (Configuring env) w;
          (success, error, w1) =
            (case attempt_environment lib env ps server_name server_config io1 io2 w0 of
               (Inl e, w1) \<Rightarrow> (False, Some (Raised e), w1)
             | (Inr (success, error), w1) \<Rightarrow> (success, error, w1))
      in if success then (True, say (Configured env) w1)
         else (False, say (Error_configuring env error) w1))"

section \<open>The entry builder\<close>

record server_data =
  sd_name :: string
  sd_mode :: string
  sd_gitlab_host :: string
  sd_token :: string
  sd_readonly :: bool

record binary_config =
  bc_mode :: string
  bc_env :: "(string \<times> string) list"
  bc_docker_image :: "string option"
  bc_command :: string
  bc_args :: "string list"

record server_config =
  sc_command :: string
  sc_args :: "string list"
  sc_env :: "(string \<times> string) list"

text \<open>
  The host line of \<open>prompt_user\<close> and of \<open>collect_servers\<close>: \<open>host_input\<close> is the
  stripped answer.
\<close>

definition prompt_gitlab_host :: "string \<Rightarrow> string" where
  "prompt_gitlab_host host_input = (if host_input \<noteq> [] then host_input else ''https://gitlab.com'')"

text \<open>
  \<open>get_binary_config\<close>: \<open>Inl code\<close> is \<open>sys.exit(code)\<close>. Every mode other than
  \<open>docker\<close> takes the local branch. A path exists when it has contents in the world.
  No other exception of the function is modelled; \<open>main\<close> would turn one into
  \<open>sys.exit(1)\<close> as well.
\<close>

definition get_binary_config ::
  "library \<Rightarrow> string \<Rightarrow> path \<Rightarrow> world \<Rightarrow> (int + binary_config) \<times> world" where
  "get_binary_config lib m project_root w =
     (if m = ''docker'' then
        (Inr \<lparr>bc_mode = m, bc_env = [], bc_docker_image = Some ''gitlab-mcp-server:latest'',
               bc_command = ''docker'',
               bc_args = [''run'', ''-i'', ''--rm'', ''-e'', ''GITLAB_TOKEN'', ''-e'', ''GITLAB_HOST'']
                         @ [''gitlab-mcp-server:latest'']\<rparr>, w)
      else
        let binary_path = project_root @ [''bin'', ''gitlab-mcp-server''] in
        if files w binary_path = None
        then (Inl 1, say Please_build (say (Binary_not_found binary_path) w))
        else (Inr \<lparr>bc_mode = m, bc_env = [], bc_docker_image = None,
                    bc_command = resolve_str lib binary_path, bc_args = [''stdio'']\<rparr>, w))"

text \<open>
  \<open>list.insert(i, x)\<close>: a negative index counts from the end, and an index out of range
  is clamped.
\<close>

definition list_insert :: "int \<Rightarrow> 'a \<Rightarrow> 'a list \<Rightarrow> 'a list" where
  "list_insert i x xs =
     (let n = int (length xs);
          j = (if i < 0 then max 0 (n + i) else min i n)
      in take (nat j) xs @ [x] @ drop (nat j) xs)"

text \<open>The read-only block of \<open>main\<close>, between the two builder calls.\<close>

definition add_readonly :: "server_data \<Rightarrow> binary_config \<Rightarrow> binary_config" where
  "add_readonly server_config_data binary_config =
     (if sd_readonly server_config_data then
        let bc1 = (if bc_mode binary_config = ''docker''
                   then binary_config\<lparr>bc_args :=
                          list_insert (- 1) ''GITLAB_READ_ONLY''
                            (list_insert (- 1) ''-e'' (bc_args binary_config))\<rparr>
                   else binary_config)
        in bc1\<lparr>bc_env := dict_set ''GITLAB_READ_ONLY'' ''true'' (bc_env bc1)\<rparr>
      else binary_config)"

definition create_server_config :: "binary_config \<Rightarrow> server_data \<Rightarrow> server_config" where
  "create_server_config binary_config server_config_data =
     (let env0 = dict_update [] (bc_env binary_config);
          env1 = dict_set ''GITLAB_TOKEN'' (sd_token server_config_data) env0;
          env2 = (if sd_gitlab_host server_config_data \<noteq> []
                  then dict_set ''GITLAB_HOST'' (sd_gitlab_host server_config_data) env1
                  else env1);
          env3 = (if sd_readonly server_config_data
                  then dict_set ''GITLAB_READ_ONLY'' ''true'' env2
                  else env2)
      in \<lparr>sc_command = bc_command binary_config, sc_args = bc_args binary_config,
          sc_env = env3\<rparr>)"

text \<open>The entry as the dict that is handed to the updaters and dumped.\<close>

definition server_config_dict :: "server_config \<Rightarrow> (string \<times> json) list" where
  "server_config_dict sc =
     [(''command'', JStr (sc_command sc)),
      (''args'', JArr (map JStr (sc_args sc))),
      (''env'', JObj (map (\<lambda>kv. (fst kv, JStr (snd kv))) (sc_env sc)))]"

section \<open>The processing loop of \<open>main\<close>\<close>

text \<open>
  The loops \<open>for server_config_data in servers\<close> and \<open>for env in environments\<close>. The
  environment's answers come as one pair of fault records per call of
  \<open>update_environment\<close>, in order; when the list runs out nothing fails. A
  \<open>SystemExit\<close> from \<open>get_binary_config\<close> is re-raised and ends the run.
\<close>

fun update_environments ::
  "library \<Rightarrow> string list \<Rightarrow> paths \<Rightarrow> string \<Rightarrow> (string \<times> json) list
     \<Rightarrow> (io_faults \<times> io_faults) list \<Rightarrow> world \<Rightarrow> world" where
  "update_environments lib [] ps server_name server_config ios w = w"
| "update_environments lib (env # environments) ps server_name server_config ios w =
     (let io = (case ios of [] \<Rightarrow> (no_faults, no_faults) | io # rest \<Rightarrow> io)
      in update_environments lib environments ps server_name server_config (tl ios)
           (snd (update_environment lib env ps server_name server_config (fst io) (snd io) w)))"

fun process_servers ::
  "library \<Rightarrow> path \<Rightarrow> server_data list \<Rightarrow> string list \<Rightarrow> paths
     \<Rightarrow> (io_faults \<times> io_faults) list list \<Rightarrow> world \<Rightarrow> int option \<times> world" where
  "process_servers lib project_root [] environments ps ioss w = (None, w)"
| "process_servers lib project_root (server_config_data # servers) environments ps ioss w =
     (let server_name = sd_name server_config_data;
          w0 = say (Processing_server server_name) w
      in case get_binary_config lib (sd_mode server_config_data) project_root w0 of
           (Inl code, w1) \<Rightarrow> (Some code, w1)
         | (Inr binary_config, w1) \<Rightarrow>
             let binary_config = add_readonly server_config_data binary_config;
                 server_config = create_server_config binary_config server_config_data;
                 w2 = update_environments lib environments ps server_name
                        (server_config_dict server_config)
                        (case ioss of [] \<Rightarrow> [] | ios # rest \<Rightarrow> ios) w1
             in process_servers lib project_root servers environments ps (tl ioss) w2)"

section \<open>The four adapter shapes\<close>

text \<open>
  The specification names four adapters. Each is one of the closures above, run by one
  of the updaters; \<open>container_key\<close> is the top-level key an adapter owns, \<open>container\<close>
  reads the innermost container of a document, and \<open>stored_entry\<close> is the object an
  adapter stores for an entry (the copy with the type tag for Claude Code).
\<close>

datatype adapter_kind = WorkspaceNested | UserNested | FlatWithTypeTag | FlatPlain

fun adapter :: "adapter_kind \<Rightarrow> string \<Rightarrow> (string \<times> json) list \<Rightarrow> json \<Rightarrow> exn + json" where
  "adapter WorkspaceNested = update_in_vscode_workspace"
| "adapter UserNested = update_in_vscode_user"
| "adapter FlatWithTypeTag = update_in_claude_config True"
| "adapter FlatPlain = update_in_claude_config False"

fun update_target ::
  "library \<Rightarrow> adapter_kind \<Rightarrow> path \<Rightarrow> string \<Rightarrow> (string \<times> json) list \<Rightarrow> io_faults \<Rightarrow> world
     \<Rightarrow> (exn + bool) \<times> world" where
  "update_target lib WorkspaceNested p n e io w = update_vscode_workspace lib p n e io w"
| "update_target lib UserNested p n e io w = update_vscode_user lib p n e io w"
| "update_target lib FlatWithTypeTag p n e io w = update_claude_config lib p n e True io w"
| "update_target lib FlatPlain p n e io w = update_claude_config lib p n e False io w"

fun description_of :: "adapter_kind \<Rightarrow> string" where
  "description_of WorkspaceNested = ''VS Code workspace config''"
| "description_of UserNested = ''VS Code user settings''"
| "description_of FlatWithTypeTag = ''Claude Code config''"
| "description_of FlatPlain = ''Claude/Cursor config''"

fun container_key :: "adapter_kind \<Rightarrow> string" where
  "container_key WorkspaceNested = ''servers''"
| "container_key UserNested = ''mcp''"
| "container_key FlatWithTypeTag = ''mcpServers''"
| "container_key FlatPlain = ''mcpServers''"

fun object_at :: "string list \<Rightarrow> json \<Rightarrow> (string \<times> json) list option" where
  "object_at [] (JObj d) = Some d"
| "object_at (k # ks) (JObj d) =
     (case dict_get k d of None \<Rightarrow> None | Some v \<Rightarrow> object_at ks v)"
| "object_at ks v = None"

fun container :: "adapter_kind \<Rightarrow> json \<Rightarrow> (string \<times> json) list option" where
  "container WorkspaceNested doc = object_at [''servers''] doc"
| "container UserNested doc = object_at [''mcp'', ''servers''] doc"
| "container FlatWithTypeTag doc = object_at [''mcpServers''] doc"
| "container FlatPlain doc = object_at [''mcpServers''] doc"

fun stored_entry :: "adapter_kind \<Rightarrow> (string \<times> json) list \<Rightarrow> (string \<times> json) list" where
  "stored_entry FlatWithTypeTag e = dict_set ''type'' (JStr ''stdio'') e"
| "stored_entry k e = e"

text \<open>The document an adapter makes of the empty document.\<close>

fun fresh_document :: "adapter_kind \<Rightarrow> string \<Rightarrow> (string \<times> json) list \<Rightarrow> json" where
  "fresh_document UserNested n e = JObj [(''mcp'', JObj [(''servers'', JObj [(n, JObj e)])])]"
| "fresh_document k n e = JObj [(container_key k, JObj [(n, JObj (stored_entry k e))])]"

section \<open>Example inputs\<close>

text \<open>
  A small library for the concrete runs below: \<open>json.load\<close> and \<open>json.dump\<close> as tables
  on the few documents that occur, every other text being invalid JSON.
\<close>

definition theme_json :: string where
  \<open>theme_json = ''{"theme": "dark"}''\<close>

definition example_library :: library where
  "example_library =
     \<lparr>json_load = (\<lambda>b. if b = ''{}'' then Parsed (JObj [])
                        else if b = ''[]'' then Parsed (JArr [])
                        else if b = theme_json then Parsed (JObj [(''theme'', JStr ''dark'')])
                        else JSONDecodeError),
      json_dump = (\<lambda>d. if d = JObj [] then ''{}'' else ''{...}''),
      resolve_str = (\<lambda>p. concat (map (\<lambda>c. CHR ''/'' # c) p))\<rparr>"

text \<open>
  Two bytes that are not UTF-8 text, and the library that raises \<open>UnicodeDecodeError\<close>
  when it reads them, as \<open>json.load\<close> does on a file opened with \<open>encoding="utf-8"\<close>.
\<close>

definition invalid_utf8 :: string where
  "invalid_utf8 = [CHR 0xFF, CHR 0xFE]"

definition decoding_library :: library where
  "decoding_library =
     example_library\<lparr>json_load :=
       (\<lambda>b. if b = invalid_utf8 then Load_raises UnicodeDecodeError
            else json_load example_library b)\<rparr>"

definition world_with :: "(path \<times> string) list \<Rightarrow> world" where
  "world_with fs = \<lparr>files = map_of fs, out = []\<rparr>"

text \<open>The entry of the specification's scenario.\<close>

definition example_entry :: "(string \<times> json) list" where
  "example_entry =
     [(''command'', JStr ''/bin/x''),
      (''args'', JArr [JStr ''stdio'']),
      (''env'', JObj [(''GITLAB_TOKEN'', JStr ''t'')])]"

definition example_paths :: paths where
  "example_paths = get_platform_paths ''Linux'' [''home'', ''dev''] [] []"

definition cursor_path :: path where
  "cursor_path = [''home'', ''dev'', ''.cursor'', ''mcp.json'']"

definition workspace_path :: path where
  "workspace_path = [''.vscode'', ''mcp.json'']"

definition user_settings_path :: path where
  "user_settings_path = [''home'', ''dev'', ''.config'', ''Code'', ''User'', ''settings.json'']"

text \<open>
  The write is cut short after the file was opened (an empty file is left) and the copy
  back from the backup raises before it touches the file.
\<close>

definition write_and_restore_fail :: io_faults where
  "write_and_restore_fail =
     no_faults\<lparr>config_write := Fails_leaving [], restore_write := Fails_untouched\<rparr>"

text \<open>The write is cut short in the same way, and the copy back succeeds.\<close>

definition write_fails :: io_faults where
  "write_fails = no_faults\<lparr>config_write := Fails_leaving []\<rparr>"

definition example_server :: "string \<Rightarrow> string \<Rightarrow> bool \<Rightarrow> server_data" where
  "example_server m host_input ro =
     \<lparr>sd_name = ''gitlab'', sd_mode = m, sd_gitlab_host = prompt_gitlab_host host_input,
      sd_token = ''t'', sd_readonly = ro\<rparr>"

definition docker_config :: binary_config where
  "docker_config =
     \<lparr>bc_mode = ''docker'', bc_env = [], bc_docker_image = Some ''gitlab-mcp-server:latest'',
      bc_command = ''docker'',
      bc_args = [''run'', ''-i'', ''--rm'', ''-e'', ''GITLAB_TOKEN'', ''-e'', ''GITLAB_HOST'',
                 ''gitlab-mcp-server:latest'']\<rparr>"

definition local_config :: binary_config where
  "local_config =
     \<lparr>bc_mode = ''local'', bc_env = [], bc_docker_image = None,
      bc_command = ''/repo/bin/gitlab-mcp-server'', bc_args = [''stdio'']\<rparr>"

section \<open>Dictionaries\<close>

lemma dict_get_Nil [simp]: "dict_get k [] = None"
  by (simp add: dict_get_def)

lemma dict_get_Cons [simp]:
  "dict_get k (b # d) = (if fst b = k then Some (snd b) else dict_get k d)"
  by (cases b) (simp add: dict_get_def)

lemma dict_get_set: "dict_get k' (dict_set k v d) = (if k' = k then Some v else dict_get k' d)"
  by (induction d) auto

lemma dict_set_idem: "dict_set k v (dict_set k v d) = dict_set k v d"
  by (induction d) auto

lemma dict_set_set: "dict_set k v' (dict_set k v d) = dict_set k v' d"
  by (induction d) auto

section \<open>The adapters on a loaded document\<close>

lemma ensure_dict_obj:
  "ensure_dict k (JObj d) = Inr (JObj (if dict_get k d = None then dict_set k (JObj []) d else d))"
  by (simp add: ensure_dict_def exn_bind_def dict_contains_def)

text \<open>
  On an object each closure either stores the entry in its container, creating the
  containers that are missing, or raises \<open>TypeError\<close> because a key on its path holds
  a value that is not an object.
\<close>

lemma workspace_obj:
  "update_in_vscode_workspace n e (JObj d) =
     (case dict_get ''servers'' d of
        None \<Rightarrow> Inr (JObj (dict_set ''servers'' (JObj [(n, JObj e)]) d))
      | Some (JObj c) \<Rightarrow> Inr (JObj (dict_set ''servers'' (JObj (dict_set n (JObj e) c)) d))
      | Some _ \<Rightarrow> Inl TypeError)"
  by (auto simp: update_in_vscode_workspace_def ensure_dict_obj exn_bind_def setitem_in_def
      dict_get_set dict_set_set split: option.splits json.splits)

lemma claude_obj:
  "update_in_claude_config cc n e (JObj d) =
     (case dict_get ''mcpServers'' d of
        None \<Rightarrow>
          Inr (JObj (dict_set ''mcpServers''
                 (JObj [(n, JObj (if cc then dict_set ''type'' (JStr ''stdio'') e else e))]) d))
      | Some (JObj c) \<Rightarrow>
          Inr (JObj (dict_set ''mcpServers''
                 (JObj (dict_set n (JObj (if cc then dict_set ''type'' (JStr ''stdio'') e else e)) c))
                 d))
      | Some _ \<Rightarrow> Inl TypeError)"
  by (auto simp: update_in_claude_config_def ensure_dict_obj exn_bind_def setitem_in_def
      dict_get_set dict_set_set split: option.splits json.splits)

lemma user_obj:
  "update_in_vscode_user n e (JObj d) =
     (case dict_get ''mcp'' d of
        None \<Rightarrow> Inr (JObj (dict_set ''mcp'' (JObj [(''servers'', JObj [(n, JObj e)])]) d))
      | Some (JObj m) \<Rightarrow>
          (case dict_get ''servers'' m of
             None \<Rightarrow>
               Inr (JObj (dict_set ''mcp'' (JObj (dict_set ''servers'' (JObj [(n, JObj e)]) m)) d))
           | Some (JObj c) \<Rightarrow>
               Inr (JObj (dict_set ''mcp''
                      (JObj (dict_set ''servers'' (JObj (dict_set n (JObj e) c)) m)) d))
           | Some _ \<Rightarrow> Inl TypeError)
      | Some (JArr xs) \<Rightarrow> Inl TypeError
      | Some (JStr s) \<Rightarrow> Inl TypeError
      | Some _ \<Rightarrow> Inl TypeError)"
  by (auto simp: update_in_vscode_user_def ensure_dict_obj ensure_dict_def exn_bind_def
      setitem_in_def dict_contains_def dict_get_set dict_set_set
      split: option.splits json.splits)

text \<open>On a document that is not an object every closure raises \<open>TypeError\<close>.\<close>

lemma adapter_not_obj: "\<forall>d. x \<noteq> JObj d \<Longrightarrow> adapter k n e x = Inl TypeError"
  by (cases k; cases x)
     (auto simp: update_in_vscode_workspace_def update_in_vscode_user_def
        update_in_claude_config_def ensure_dict_def exn_bind_def setitem_in_def
      split: if_splits)

lemma adapter_empty: "adapter k n e (JObj []) = Inr (fresh_document k n e)"
  by (cases k) (simp_all add: workspace_obj user_obj claude_obj)

lemma adapter_frame:
  assumes "adapter k n e (JObj d) = Inr x"
  shows "\<exists>d'. x = JObj d'
           \<and> (\<forall>key. key \<noteq> container_key k \<longrightarrow> dict_get key d' = dict_get key d)"
  using assms
  by (cases k)
     (auto simp: workspace_obj user_obj claude_obj dict_get_set split: option.splits json.splits)

lemma object_at_Nil_iff: "object_at [] x = Some c \<longleftrightarrow> x = JObj c"
  by (cases x) auto

lemma object_at_Cons_iff:
  "object_at (k # ks) x = Some c
     \<longleftrightarrow> (\<exists>d v. x = JObj d \<and> dict_get k d = Some v \<and> object_at ks v = Some c)"
  by (cases x) (auto split: option.splits)

lemma object_at_single:
  "object_at [k] x = Some c \<longleftrightarrow> (\<exists>d. x = JObj d \<and> dict_get k d = Some (JObj c))"
  by (simp add: object_at_Cons_iff object_at_Nil_iff)

lemma object_at_double:
  "object_at [k, k'] x = Some c \<longleftrightarrow>
     (\<exists>d m. x = JObj d \<and> dict_get k d = Some (JObj m) \<and> dict_get k' m = Some (JObj c))"
  by (auto simp add: object_at_Cons_iff object_at_Nil_iff)

text \<open>
  Claim C2. Starting from the empty document, with the name \<open>gitlab\<close> and any entry
  object \<open>e\<close>: the workspace closure yields \<open>{"servers": {"gitlab": e}}\<close>, the user
  settings closure \<open>{"mcp": {"servers": {"gitlab": e}}}\<close>, the Claude closure with
  \<open>is_claude_code=True\<close> yields \<open>{"mcpServers": {"gitlab": e'}}\<close> where \<open>e'\<close> is \<open>e\<close>
  with \<open>"type": "stdio"\<close> assigned, and with \<open>is_claude_code=False\<close> it yields
  \<open>{"mcpServers": {"gitlab": e}}\<close>.
\<close>

theorem adapter_shape_exactness:
  "update_in_vscode_workspace ''gitlab'' e (JObj []) =
     Inr (JObj [(''servers'', JObj [(''gitlab'', JObj e)])])
   \<and> update_in_vscode_user ''gitlab'' e (JObj []) =
     Inr (JObj [(''mcp'', JObj [(''servers'', JObj [(''gitlab'', JObj e)])])])
   \<and> update_in_claude_config True ''gitlab'' e (JObj []) =
     Inr (JObj [(''mcpServers'', JObj [(''gitlab'', JObj (dict_set ''type'' (JStr ''stdio'') e))])])
   \<and> update_in_claude_config False ''gitlab'' e (JObj []) =
     Inr (JObj [(''mcpServers'', JObj [(''gitlab'', JObj e)])])"
  by (simp add: workspace_obj user_obj claude_obj)

section \<open>Upsert\<close>

lemma upsert_workspace:
  assumes "container WorkspaceNested doc = Some c"
  shows "\<exists>doc' c'. adapter WorkspaceNested n e doc = Inr doc'
           \<and> container WorkspaceNested doc' = Some c'
           \<and> dict_get n c' = Some (JObj (stored_entry WorkspaceNested e))
           \<and> (\<forall>m. m \<noteq> n \<longrightarrow> dict_get m c' = dict_get m c)
           \<and> adapter WorkspaceNested n e doc' = Inr doc'"
  using assms
  by (auto simp: object_at_single workspace_obj dict_get_set dict_set_set dict_set_idem)

lemma upsert_claude:
  assumes "object_at [''mcpServers''] doc = Some c"
  shows "\<exists>doc' c'. update_in_claude_config cc n e doc = Inr doc'
           \<and> object_at [''mcpServers''] doc' = Some c'
           \<and> dict_get n c' = Some (JObj (if cc then dict_set ''type'' (JStr ''stdio'') e else e))
           \<and> (\<forall>m. m \<noteq> n \<longrightarrow> dict_get m c' = dict_get m c)
           \<and> update_in_claude_config cc n e doc' = Inr doc'"
  using assms
  by (auto simp: object_at_single claude_obj dict_get_set dict_set_set dict_set_idem)

lemma upsert_user:
  assumes "container UserNested doc = Some c"
  shows "\<exists>doc' c'. adapter UserNested n e doc = Inr doc'
           \<and> container UserNested doc' = Some c'
           \<and> dict_get n c' = Some (JObj (stored_entry UserNested e))
           \<and> (\<forall>m. m \<noteq> n \<longrightarrow> dict_get m c' = dict_get m c)
           \<and> adapter UserNested n e doc' = Inr doc'"
  using assms
  by (auto simp: object_at_double user_obj dict_get_set dict_set_set dict_set_idem)

text \<open>
  Claim C5, as amended. For every document whose innermost container already maps the
  name \<open>n\<close> to some old entry, applying an adapter with \<open>(n, e)\<close> succeeds, the container
  then maps \<open>n\<close> to the object the adapter stores for \<open>e\<close> (\<open>e\<close> itself for the workspace,
  user-settings and plain flat shapes, \<open>e\<close> with \<open>"type": "stdio"\<close> assigned for the
  Claude Code shape), every other name of the container keeps its value, and applying
  the same \<open>(n, e)\<close> again leaves the document as it is.
\<close>

theorem upsert_overwrite:
  assumes "container k doc = Some c" and "dict_get n c = Some old"
  shows "\<exists>doc' c'. adapter k n e doc = Inr doc' \<and> container k doc' = Some c'
           \<and> dict_get n c' = Some (JObj (stored_entry k e))
           \<and> (\<forall>m. m \<noteq> n \<longrightarrow> dict_get m c' = dict_get m c)
           \<and> adapter k n e doc' = Inr doc'"
proof (cases k)
  case WorkspaceNested
  then show ?thesis using upsert_workspace assms(1) by simp
next
  case UserNested
  then show ?thesis using upsert_user assms(1) by simp
next
  case FlatWithTypeTag
  then show ?thesis using upsert_claude [of doc c True n e] assms(1) by simp
next
  case FlatPlain
  then show ?thesis using upsert_claude [of doc c False n e] assms(1) by simp
qed

text \<open>
  The theorem at the user-settings shape, on a document whose container holds an old
  \<open>gitlab\<close> entry and a sibling \<open>work\<close>.
\<close>

theorem upsert_overwrite_witness:
  "container UserNested
     (JObj [(''mcp'', JObj [(''servers'', JObj [(''gitlab'', JObj []), (''work'', JNull)])])])
     = Some [(''gitlab'', JObj []), (''work'', JNull)]
   \<and> dict_get ''gitlab'' [(''gitlab'', JObj []), (''work'', JNull)] = Some (JObj [])
   \<and> (\<exists>doc' c'.
         adapter UserNested ''gitlab'' example_entry
           (JObj [(''mcp'', JObj [(''servers'', JObj [(''gitlab'', JObj []), (''work'', JNull)])])])
           = Inr doc'
         \<and> container UserNested doc' = Some c'
         \<and> dict_get ''gitlab'' c' = Some (JObj example_entry)
         \<and> dict_get ''work'' c' = Some JNull
         \<and> adapter UserNested ''gitlab'' example_entry doc' = Inr doc')"
proof -
  let ?c = "[(''gitlab'', JObj []), (''work'', JNull)]"
  let ?doc = "JObj [(''mcp'', JObj [(''servers'', JObj ?c)])]"
  have h1: "container UserNested ?doc = Some ?c" by simp
  have h2: "dict_get ''gitlab'' ?c = Some (JObj [])" by simp
  from upsert_overwrite [OF h1 h2, of example_entry] obtain doc' c' where
    r: "adapter UserNested ''gitlab'' example_entry ?doc = Inr doc'"
      "container UserNested doc' = Some c'"
      "dict_get ''gitlab'' c' = Some (JObj (stored_entry UserNested example_entry))"
      "\<forall>m. m \<noteq> ''gitlab'' \<longrightarrow> dict_get m c' = dict_get m ?c"
      "adapter UserNested ''gitlab'' example_entry doc' = Inr doc'"
    by blast
  from r(4) have "dict_get ''work'' c' = Some JNull" by simp
  with r h1 h2 show ?thesis by auto
qed

text \<open>
  The claim as stated fails for the Claude Code shape: the value stored at \<open>gitlab\<close> is
  not the entry \<open>e\<close> but its copy with the type tag.
\<close>

theorem upsert_type_tag_counterexample:
  "container FlatWithTypeTag (JObj [(''mcpServers'', JObj [(''gitlab'', JObj [])])])
     = Some [(''gitlab'', JObj [])]
   \<and> dict_get ''gitlab'' [(''gitlab'', JObj [])] = Some (JObj [])
   \<and> adapter FlatWithTypeTag ''gitlab'' example_entry
        (JObj [(''mcpServers'', JObj [(''gitlab'', JObj [])])])
     = Inr (JObj [(''mcpServers'',
                   JObj [(''gitlab'', JObj (example_entry @ [(''type'', JStr ''stdio'')]))])])
   \<and> JObj (example_entry @ [(''type'', JStr ''stdio'')]) \<noteq> JObj example_entry"
  by (simp add: claude_obj example_entry_def)

section \<open>The backup path differs from the target path\<close>

lemma drop_at_last_dot:
  assumes "CHR ''.'' \<in> set name"
  shows "drop (length name - length (takeWhile (\<lambda>c. c \<noteq> CHR ''.'') (rev name)) - 1) name
           = CHR ''.'' # rev (takeWhile (\<lambda>c. c \<noteq> CHR ''.'') (rev name))"
proof -
  let ?P = "\<lambda>c. c \<noteq> CHR ''.''"
  let ?t = "takeWhile ?P (rev name)"
  let ?d = "dropWhile ?P (rev name)"
  have nonempty: "?d \<noteq> []" using assms by (simp add: dropWhile_eq_Nil_conv)
  then obtain x rest where d: "?d = x # rest" by (cases ?d) auto
  then have "\<not> ?P x" using hd_dropWhile [of ?P "rev name"] nonempty by (metis list.sel(1))
  then have x: "x = CHR ''.''" by simp
  have "rev name = ?t @ ?d" by simp
  then have "rev name = ?t @ CHR ''.'' # rest" using d x by simp
  then have "rev (rev name) = rev (?t @ CHR ''.'' # rest)" by simp
  then have n: "name = rev rest @ CHR ''.'' # rev ?t" by simp
  have "length name = length rest + 1 + length ?t"
    by (subst n) simp
  then have "length name - length ?t - 1 = length (rev rest)" by simp
  then have "drop (length name - length ?t - 1) name
               = drop (length (rev rest)) (rev rest @ CHR ''.'' # rev ?t)"
    using n by metis
  then show ?thesis by simp
qed

lemma name_suffix_one_dot:
  assumes "name_suffix name = CHR ''.'' # rest"
  shows "CHR ''.'' \<notin> set rest"
proof -
  from assms have dot: "CHR ''.'' \<in> set name"
    by (auto simp: name_suffix_def rfind_dot_def split: if_splits)
  from assms dot
  have "drop (length name - length (takeWhile (\<lambda>c. c \<noteq> CHR ''.'') (rev name)) - 1) name
          = CHR ''.'' # rest"
    by (auto simp: name_suffix_def rfind_dot_def split: if_splits)
  then have "rest = rev (takeWhile (\<lambda>c. c \<noteq> CHR ''.'') (rev name))"
    using drop_at_last_dot [OF dot] by simp
  then have "set rest = set (takeWhile (\<lambda>c. c \<noteq> CHR ''.'') (rev name))" by simp
  then show ?thesis using set_takeWhileD by fastforce
qed

lemma name_suffix_is_drop:
  "name_suffix name \<noteq> [] \<Longrightarrow>
     take (length name - length (name_suffix name)) name @ name_suffix name = name"
  by (auto simp: name_suffix_def split: option.splits if_splits)

lemma name_suffix_not_bak: "name_suffix name \<noteq> ''.json.bak''"
  using name_suffix_one_dot [of name "''json.bak''"] by auto

lemma with_suffix_neq:
  assumes "with_suffix p ''.json.bak'' = Inr q"
  shows "q \<noteq> p"
proof
  assume same: "q = p"
  let ?name = "path_name p"
  from assms have ne: "?name \<noteq> []" by (auto simp: with_suffix_def Let_def split: if_splits)
  then have p: "p = butlast p @ [?name]" by (auto simp: path_name_def split: if_splits)
  show False
  proof (cases "name_suffix ?name = []")
    case True
    with assms ne have "q = butlast p @ [?name @ ''.json.bak'']"
      by (auto simp: with_suffix_def Let_def)
    with same p have "?name @ ''.json.bak'' = ?name" by (metis append1_eq_conv)
    then show False by simp
  next
    case False
    let ?stem = "take (length ?name - length (name_suffix ?name)) ?name"
    from False assms ne have "q = butlast p @ [?stem @ ''.json.bak'']"
      by (auto simp: with_suffix_def Let_def)
    with same p have "?stem @ ''.json.bak'' = ?name" by (metis append1_eq_conv)
    moreover have "?stem @ name_suffix ?name = ?name" using name_suffix_is_drop [OF False] .
    ultimately have "name_suffix ?name = ''.json.bak''" by (metis same_append_eq)
    then show False using name_suffix_not_bak by blast
  qed
qed

lemma with_suffix_ok: "path_name p \<noteq> [] \<Longrightarrow> \<exists>q. with_suffix p suf = Inr q"
  by (simp add: with_suffix_def Let_def)

section \<open>The steps of \<open>update_json_file\<close>\<close>

lemma files_say [simp]: "files (say m w) = files w"
  by (simp add: say_def)

lemma out_say [simp]: "out (say m w) = out w @ [m]"
  by (simp add: say_def)

lemma update_target_eq:
  "update_target lib k p n e io w
     = update_json_file lib p (adapter k n e) (description_of k) io w"
  by (cases k)
     (simp_all add: update_vscode_workspace_def update_vscode_user_def update_claude_config_def)

lemma write_effect_other: "q \<noteq> p \<Longrightarrow> write_effect r p b fs q = fs q"
  by (cases r) (simp_all add: write_effect_def)

lemma write_effect_Succeeds [simp]: "write_effect Succeeds p b fs = fs(p \<mapsto> b)"
  by (simp add: write_effect_def)

lemma write_effect_untouched [simp]: "write_effect Fails_untouched p b fs = fs"
  by (simp add: write_effect_def)

lemma read_step_files: "read_step lib p d io w = (r, w1) \<Longrightarrow> files w1 = files w"
  by (auto simp: read_step_def split: option.splits if_splits load_result.splits)

lemma read_step_parsed:
  "files w p = Some b \<Longrightarrow> \<not> read_fails io \<Longrightarrow> json_load lib b = Parsed data
     \<Longrightarrow> read_step lib p d io w = (Inr data, w)"
  by (simp add: read_step_def)

lemma read_step_corrupt:
  "files w p = Some b \<Longrightarrow> \<not> read_fails io \<Longrightarrow> json_load lib b = JSONDecodeError
     \<Longrightarrow> read_step lib p d io w = (Inr (JObj []), say (Warning_parse d) w)"
  by (simp add: read_step_def)

text \<open>
  An exception of \<open>json.load\<close> other than \<open>JSONDecodeError\<close> leaves the call at once:
  nothing is printed and no file is written.
\<close>

lemma load_exception_propagates:
  "files w p = Some b \<Longrightarrow> \<not> read_fails io \<Longrightarrow> json_load lib b = Load_raises ex
     \<Longrightarrow> update_json_file lib p f d io w = (Inl ex, w)"
  by (simp add: update_json_file_def read_step_def)

lemma backup_step_frame:
  "backup_step p io w = (r, w1) \<Longrightarrow> with_suffix p ''.json.bak'' \<noteq> Inr q
     \<Longrightarrow> files w1 q = files w q"
  by (auto simp: backup_step_def Let_def write_effect_other
      split: option.splits sum.splits if_splits)

text \<open>
  The backup of an existing file never raises and never changes the file itself; when
  the copy succeeds the backup holds the file's bytes and nothing is printed.
\<close>

lemma backup_step_exists:
  "files w p = Some b \<Longrightarrow> with_suffix p ''.json.bak'' = Inr bp \<Longrightarrow>
   \<exists>w1. backup_step p io w = (Inr (), w1) \<and> files w1 p = Some b
      \<and> (backup_write io = Succeeds \<longrightarrow> files w1 bp = Some b \<and> out w1 = out w)
      \<and> (out w1 = out w \<or> out w1 = out w @ [Warning_backup])"
  by (auto simp: backup_step_def Let_def write_effect_other dest!: with_suffix_neq)

lemma write_step_True:
  "write_step lib p data d io w = (Inr True, w') \<Longrightarrow>
     config_write io = Succeeds \<and> files w' p = Some (json_dump lib data @ [CHR 0x0A])
     \<and> out w' = out w"
  by (auto simp: write_step_def Let_def split: if_splits sum.splits option.splits)

lemma write_step_Succeeds:
  "config_write io = Succeeds \<Longrightarrow>
     write_step lib p data d io w
       = (Inr True, w\<lparr>files := (files w)(p \<mapsto> json_dump lib data @ [CHR 0x0A])\<rparr>)"
  by (simp add: write_step_def Let_def)

lemma write_step_frame:
  "write_step lib p data d io w = (r, w') \<Longrightarrow> q \<noteq> p \<Longrightarrow> files w' q = files w q"
  by (auto simp: write_step_def Let_def write_effect_other
      split: if_splits sum.splits option.splits)

lemma write_step_fails:
  assumes "config_write io \<noteq> Succeeds" and "write_step lib p data d io w = (r, w')"
  shows "r \<noteq> Inr True"
  using assms by (auto simp: write_step_def Let_def split: if_splits sum.splits option.splits)

lemma write_step_restores:
  assumes "config_write io \<noteq> Succeeds" and "write_step lib p data d io w = (r, w')"
    and "with_suffix p ''.json.bak'' = Inr bp" and "files w bp = Some b" and "files w p = Some b"
    and "restore_write io = Succeeds
          \<or> (config_write io = Fails_untouched \<and> restore_write io = Fails_untouched)"
  shows "r = Inr False \<and> files w' p = Some b"
  using assms with_suffix_neq [OF assms(3)]
  by (auto simp: write_step_def Let_def write_effect_other
      split: if_splits sum.splits option.splits)

text \<open>A call changes no file but the target and its backup.\<close>

lemma update_json_file_frame:
  assumes "update_json_file lib p f d io w = (r, w')" and "q \<noteq> p"
    and "with_suffix p ''.json.bak'' \<noteq> Inr q"
  shows "files w' q = files w q"
  using assms
  by (auto simp: update_json_file_def split: prod.splits sum.splits if_splits
      dest!: read_step_files backup_step_frame [where q = q] write_step_frame [where q = q])

lemma update_json_file_True:
  assumes "update_json_file lib p f desc io w = (Inr True, w')"
    and "files w p = Some b" and "json_load lib b = Parsed data"
  shows "\<exists>data'. f data = Inr data' \<and> files w' p = Some (json_dump lib data' @ [CHR 0x0A])"
proof -
  from assms(1) obtain x w1 where r: "read_step lib p desc io w = (Inr x, w1)"
    by (auto simp: update_json_file_def split: prod.splits sum.splits)
  with assms(2,3) have x: "x = data" and w1: "w1 = w"
    by (auto simp: read_step_def split: if_splits)
  from assms(1) r obtain w2 where b: "backup_step p io w1 = (Inr (), w2)"
    by (auto simp: update_json_file_def split: prod.splits sum.splits)
  from assms(1) r b obtain data' where f: "f x = Inr data'"
    and ws: "write_step lib p data' desc io w2 = (Inr True, w')"
    by (auto simp: update_json_file_def split: prod.splits sum.splits if_splits)
  from write_step_True [OF ws] f x show ?thesis by auto
qed

text \<open>The call on an existing file that is read and parsed, once the backup is taken.\<close>

lemma update_json_file_existing:
  assumes "files w p = Some b" and "\<not> read_fails io" and "json_load lib b = Parsed data"
    and "with_suffix p ''.json.bak'' = Inr bp"
  shows "\<exists>w2. backup_step p io w = (Inr (), w2) \<and>
           update_json_file lib p f desc io w =
             (case f data of
                Inl e \<Rightarrow> (Inl e, w2)
              | Inr data' \<Rightarrow> if mkdir_fails io then (Inl OSError, w2)
                             else write_step lib p data' desc io w2)"
proof -
  from backup_step_exists [OF assms(1,4)] obtain w2 where "backup_step p io w = (Inr (), w2)"
    by blast
  then show ?thesis
    by (simp add: update_json_file_def read_step_parsed [OF assms(1,2,3)])
qed

lemmas run_defs =
  update_vscode_workspace_def update_vscode_user_def update_claude_config_def
  update_json_file_def read_step_def backup_step_def write_step_def write_effect_def
  with_suffix_def path_name_def name_suffix_def rfind_dot_def say_def no_faults_def
  world_with_def example_library_def theme_json_def example_entry_def cursor_path_def
  workspace_path_def user_settings_path_def write_and_restore_fail_def write_fails_def Let_def

section \<open>Preservation of unrelated keys\<close>

text \<open>
  Claim C1. For every existing target file whose contents parse as a JSON object, when
  \<open>update_json_file\<close>, run by any of the four adapters, applies the mutation and writes
  the result (it returns \<open>True\<close>), the file holds the dump of a document in which every
  top-level key other than the adapter's container key (\<open>servers\<close>, \<open>mcp\<close> or
  \<open>mcpServers\<close>) is bound exactly as in the document that was read.
\<close>

theorem preservation_of_unrelated_keys:
  assumes "files w p = Some b" and "json_load lib b = Parsed (JObj d)"
    and "update_target lib k p n e io w = (Inr True, w')"
  shows "\<exists>d'. adapter k n e (JObj d) = Inr (JObj d')
           \<and> files w' p = Some (json_dump lib (JObj d') @ [CHR 0x0A])
           \<and> (\<forall>key. key \<noteq> container_key k \<longrightarrow> dict_get key d' = dict_get key d)"
proof -
  from assms(3)
  have "update_json_file lib p (adapter k n e) (description_of k) io w = (Inr True, w')"
    by (simp add: update_target_eq)
  from update_json_file_True [OF this assms(1,2)] obtain data' where
    a: "adapter k n e (JObj d) = Inr data'" and
    f: "files w' p = Some (json_dump lib data' @ [CHR 0x0A])" by blast
  from adapter_frame [OF a] obtain d' where "data' = JObj d'"
    and "\<forall>key. key \<noteq> container_key k \<longrightarrow> dict_get key d' = dict_get key d" by blast
  with a f show ?thesis by blast
qed

text \<open>
  The theorem on a Cursor file that holds \<open>{"theme": "dark"}\<close>: the call returns
  \<open>True\<close> and the written document still binds \<open>theme\<close> to \<open>"dark"\<close>.
\<close>

theorem preservation_of_unrelated_keys_witness:
  "files (world_with [(cursor_path, theme_json)]) cursor_path = Some theme_json
   \<and> json_load example_library theme_json = Parsed (JObj [(''theme'', JStr ''dark'')])
   \<and> fst (update_target example_library FlatPlain cursor_path ''gitlab'' example_entry no_faults
            (world_with [(cursor_path, theme_json)])) = Inr True
   \<and> (\<exists>d'. adapter FlatPlain ''gitlab'' example_entry (JObj [(''theme'', JStr ''dark'')])
              = Inr (JObj d')
         \<and> files (snd (update_target example_library FlatPlain cursor_path ''gitlab''
                         example_entry no_faults (world_with [(cursor_path, theme_json)])))
                 cursor_path
             = Some (json_dump example_library (JObj d') @ [CHR 0x0A])
         \<and> dict_get ''theme'' d' = Some (JStr ''dark''))"
proof -
  let ?w = "world_with [(cursor_path, theme_json)]"
  let ?u = "update_target example_library FlatPlain cursor_path ''gitlab'' example_entry
              no_faults ?w"
  have h1: "files ?w cursor_path = Some theme_json" by (simp add: world_with_def)
  have h2: "json_load example_library theme_json = Parsed (JObj [(''theme'', JStr ''dark'')])"
    by (simp add: example_library_def theme_json_def)
  have t: "fst ?u = Inr True" by (simp add: run_defs claude_obj)
  then have h3: "?u = (Inr True, snd ?u)" by (metis prod.collapse)
  from preservation_of_unrelated_keys [OF h1 h2 h3] obtain d' where
    "adapter FlatPlain ''gitlab'' example_entry (JObj [(''theme'', JStr ''dark'')]) = Inr (JObj d')"
    "files (snd ?u) cursor_path = Some (json_dump example_library (JObj d') @ [CHR 0x0A])"
    "\<forall>key. key \<noteq> container_key FlatPlain
        \<longrightarrow> dict_get key d' = dict_get key [(''theme'', JStr ''dark'')]"
    by blast
  moreover from this(3) have "dict_get ''theme'' d' = Some (JStr ''dark'')" by simp
  ultimately show ?thesis using h1 h2 t by blast
qed

section \<open>Failure of the mutation or of the write\<close>

text \<open>
  Claim C3, as amended. Let the target file exist, be readable and hold valid JSON. If the
  caller's mutate function raises, the call raises too and the file's bytes are what they
  were. If the final write fails, the call does not report success, and the file's bytes
  are what they were provided the backup copy had been written and either the copy back
  from the backup succeeds or neither the failed write nor the failed copy back touched
  the file. In neither case is \<open>True\<close> returned.
\<close>

theorem backup_round_trip:
  assumes "files w p = Some b" and "\<not> read_fails io" and "json_load lib b = Parsed data"
    and "update_json_file lib p update_func desc io w = (r, w')"
    and "(\<exists>e. update_func data = Inl e) \<or> config_write io \<noteq> Succeeds"
  shows "r \<noteq> Inr True
       \<and> ((\<exists>e. update_func data = Inl e) \<longrightarrow> files w' p = Some b \<and> (\<exists>e. r = Inl e))
       \<and> (backup_write io = Succeeds
            \<and> (restore_write io = Succeeds
                \<or> config_write io = Fails_untouched \<and> restore_write io = Fails_untouched)
          \<longrightarrow> files w' p = Some b)"
proof (cases "with_suffix p ''.json.bak''")
  case (Inl e)
  with assms(1,2,3,4) have "r = Inl e" "w' = w"
    by (auto simp: update_json_file_def read_step_def backup_step_def)
  then show ?thesis using assms(1) by auto
next
  case (Inr bp)
  from backup_step_exists [OF assms(1) Inr, of io] obtain w2 where
    b: "backup_step p io w = (Inr (), w2)" and w2p: "files w2 p = Some b"
    and w2b: "backup_write io = Succeeds \<longrightarrow> files w2 bp = Some b" by blast
  from update_json_file_existing [OF assms(1,2,3) Inr, of update_func desc] b assms(4)
  have u: "(r, w') = (case update_func data of
                Inl e \<Rightarrow> (Inl e, w2)
              | Inr data' \<Rightarrow> if mkdir_fails io then (Inl OSError, w2)
                             else write_step lib p data' desc io w2)" by simp
  show ?thesis
  proof (cases "update_func data")
    case (Inl e)
    with u w2p show ?thesis by simp
  next
    case mutated: (Inr data')
    with assms(5) have cw: "config_write io \<noteq> Succeeds" by auto
    show ?thesis
    proof (cases "mkdir_fails io")
      case True
      with u mutated w2p show ?thesis by simp
    next
      case False
      with u mutated have ws: "write_step lib p data' desc io w2 = (r, w')" by simp
      from write_step_fails [OF cw ws] have "r \<noteq> Inr True" .
      moreover have "files w' p = Some b"
        if "backup_write io = Succeeds" and "restore_write io = Succeeds
                \<or> config_write io = Fails_untouched \<and> restore_write io = Fails_untouched"
        using write_step_restores [OF cw ws Inr _ w2p] w2b that
        by blast
      ultimately show ?thesis using mutated by auto
    qed
  qed
qed

text \<open>
  The theorem twice on a Cursor file: the file holds \<open>[]\<close> and the closure raises on the
  array; the file holds \<open>{}\<close>, the write fails and the copy back succeeds.
\<close>

theorem backup_round_trip_witness:
  "files (world_with [(cursor_path, ''[]'')]) cursor_path = Some ''[]''
   \<and> json_load example_library ''[]'' = Parsed (JArr [])
   \<and> update_in_claude_config False ''gitlab'' example_entry (JArr []) = Inl TypeError
   \<and> fst (update_json_file example_library cursor_path
             (update_in_claude_config False ''gitlab'' example_entry) ''Claude/Cursor config''
             no_faults (world_with [(cursor_path, ''[]'')])) \<noteq> Inr True
   \<and> files (snd (update_json_file example_library cursor_path
             (update_in_claude_config False ''gitlab'' example_entry) ''Claude/Cursor config''
             no_faults (world_with [(cursor_path, ''[]'')]))) cursor_path = Some ''[]''
   \<and> files (world_with [(cursor_path, ''{}'')]) cursor_path = Some ''{}''
   \<and> json_load example_library ''{}'' = Parsed (JObj [])
   \<and> config_write write_fails = Fails_leaving []
   \<and> backup_write write_fails = Succeeds
   \<and> restore_write write_fails = Succeeds
   \<and> fst (update_json_file example_library cursor_path
             (update_in_claude_config False ''gitlab'' example_entry) ''Claude/Cursor config''
             write_fails (world_with [(cursor_path, ''{}'')])) \<noteq> Inr True
   \<and> files (snd (update_json_file example_library cursor_path
             (update_in_claude_config False ''gitlab'' example_entry) ''Claude/Cursor config''
             write_fails (world_with [(cursor_path, ''{}'')]))) cursor_path = Some ''{}''"
proof -
  let ?f = "update_in_claude_config False ''gitlab'' example_entry"
  let ?wa = "world_with [(cursor_path, ''[]'')]"
  let ?ua = "update_json_file example_library cursor_path ?f ''Claude/Cursor config'' no_faults ?wa"
  let ?wb = "world_with [(cursor_path, ''{}'')]"
  let ?ub = "update_json_file example_library cursor_path ?f ''Claude/Cursor config'' write_fails ?wb"
  have a1: "files ?wa cursor_path = Some ''[]''" by (simp add: world_with_def)
  have a2: "\<not> read_fails no_faults" by (simp add: no_faults_def)
  have a3: "json_load example_library ''[]'' = Parsed (JArr [])"
    by (simp add: example_library_def)
  have a4: "?ua = (fst ?ua, snd ?ua)" by simp
  have raises: "?f (JArr []) = Inl TypeError"
    using adapter_not_obj [of "JArr []" FlatPlain "''gitlab''" example_entry] by simp
  then have a5: "(\<exists>e. ?f (JArr []) = Inl e) \<or> config_write no_faults \<noteq> Succeeds" by blast
  from backup_round_trip [OF a1 a2 a3 a4 a5] raises
  have a: "fst ?ua \<noteq> Inr True \<and> files (snd ?ua) cursor_path = Some ''[]''" by blast
  have b1: "files ?wb cursor_path = Some ''{}''" by (simp add: world_with_def)
  have b2: "\<not> read_fails write_fails" by (simp add: write_fails_def no_faults_def)
  have b3: "json_load example_library ''{}'' = Parsed (JObj [])"
    by (simp add: example_library_def)
  have b4: "?ub = (fst ?ub, snd ?ub)" by simp
  have io: "config_write write_fails = Fails_leaving []" "backup_write write_fails = Succeeds"
    "restore_write write_fails = Succeeds"
    by (simp_all add: write_fails_def no_faults_def)
  then have b5: "(\<exists>e. ?f (JObj []) = Inl e) \<or> config_write write_fails \<noteq> Succeeds" by simp
  from backup_round_trip [OF b1 b2 b3 b4 b5] io
  have b: "fst ?ub \<noteq> Inr True \<and> files (snd ?ub) cursor_path = Some ''{}''" by simp
  from a b a1 a3 raises b1 b3 io show ?thesis by simp
qed

text \<open>
  The claim as stated fails when the copy back from the backup fails: the file held
  \<open>{}\<close>, the backup was written, the write failed leaving an empty file, the copy back
  raised and was swallowed; the call returns \<open>False\<close> and the file is left empty.
\<close>

theorem restore_failure_counterexample:
  "files (world_with [(cursor_path, ''{}'')]) cursor_path = Some ''{}''
   \<and> json_load example_library ''{}'' = Parsed (JObj [])
   \<and> config_write write_and_restore_fail = Fails_leaving []
   \<and> update_json_file example_library cursor_path
        (update_in_claude_config False ''gitlab'' example_entry) ''Claude/Cursor config''
        write_and_restore_fail (world_with [(cursor_path, ''{}'')])
      = (Inr False,
         \<lparr>files = [cursor_path \<mapsto> [],
                   [''home'', ''dev'', ''.cursor'', ''mcp.json.bak''] \<mapsto> ''{}''],
          out = [Error_write ''Claude/Cursor config'']\<rparr>)
   \<and> [cursor_path \<mapsto> [], [''home'', ''dev'', ''.cursor'', ''mcp.json.bak''] \<mapsto> ''{}'']
        cursor_path \<noteq> Some ''{}''"
  by (simp add: run_defs claude_obj fun_upd_twist)

section \<open>A file that does not parse\<close>

text \<open>
  Claim C4, as amended. If the target file exists and is read and \<open>json.load\<close> raises
  \<open>JSONDecodeError\<close> on its contents, the read step prints the parse warning and goes on
  from the empty document without raising; the adapter makes of the empty document
  exactly its container scaffolding with the new entry; the call raises nothing for the
  parse failure (only a failing \<open>mkdir\<close> can still raise), the warning is among what
  was printed, and once the write succeeds the call returns \<open>True\<close> and the file holds
  the dump of that fresh document followed by a newline.
\<close>

theorem corrupt_file_tolerance:
  assumes "files w p = Some b" and "\<not> read_fails io" and "json_load lib b = JSONDecodeError"
    and "path_name p \<noteq> []"
  shows "read_step lib p (description_of k) io w
           = (Inr (JObj []), say (Warning_parse (description_of k)) w)
       \<and> adapter k n e (JObj []) = Inr (fresh_document k n e)
       \<and> (\<exists>w'. update_target lib k p n e io w
                  = (if mkdir_fails io then Inl OSError
                     else Inr (config_write io = Succeeds), w')
               \<and> Warning_parse (description_of k) \<in> set (out w')
               \<and> (\<not> mkdir_fails io \<and> config_write io = Succeeds
                    \<longrightarrow> files w' p = Some (json_dump lib (fresh_document k n e) @ [CHR 0x0A])))"
proof -
  let ?d = "description_of k"
  let ?w1 = "say (Warning_parse ?d) w"
  have r: "read_step lib p ?d io w = (Inr (JObj []), ?w1)"
    using read_step_corrupt [OF assms(1,2,3)] .
  have a: "adapter k n e (JObj []) = Inr (fresh_document k n e)" by (rule adapter_empty)
  from with_suffix_ok [OF assms(4)] obtain bp where bp: "with_suffix p ''.json.bak'' = Inr bp"
    by blast
  have "files ?w1 p = Some b" using assms(1) by simp
  from backup_step_exists [OF this bp, of io] obtain w2 where
    b: "backup_step p io ?w1 = (Inr (), w2)"
    and o: "out w2 = out ?w1 \<or> out w2 = out ?w1 @ [Warning_backup]" by blast
  have u: "update_target lib k p n e io w =
             (if mkdir_fails io then (Inl OSError, w2)
              else write_step lib p (fresh_document k n e) ?d io w2)"
    by (simp add: update_target_eq update_json_file_def r b a)
  have w2: "Warning_parse ?d \<in> set (out w2)" using o by auto
  have "\<exists>w'. update_target lib k p n e io w
                  = (if mkdir_fails io then Inl OSError
                     else Inr (config_write io = Succeeds), w')
               \<and> Warning_parse ?d \<in> set (out w')
               \<and> (\<not> mkdir_fails io \<and> config_write io = Succeeds
                    \<longrightarrow> files w' p = Some (json_dump lib (fresh_document k n e) @ [CHR 0x0A]))"
  proof (cases "mkdir_fails io")
    case True
    then show ?thesis using u w2 by auto
  next
    case False
    show ?thesis
    proof (cases "config_write io = Succeeds")
      case True
      then show ?thesis using u w2 False by (simp add: write_step_Succeeds)
    next
      case cw: False
      then show ?thesis using u w2 False bp
        by (auto simp: write_step_def Let_def split: option.splits)
    qed
  qed
  with r a show ?thesis by blast
qed

text \<open>The theorem on a Cursor file that holds the text \<open>not json\<close>, with nothing failing.\<close>

theorem corrupt_file_tolerance_witness:
  "files (world_with [(cursor_path, ''not json'')]) cursor_path = Some ''not json''
   \<and> \<not> read_fails no_faults
   \<and> json_load example_library ''not json'' = JSONDecodeError
   \<and> path_name cursor_path \<noteq> []
   \<and> read_step example_library cursor_path ''Claude/Cursor config'' no_faults
        (world_with [(cursor_path, ''not json'')])
      = (Inr (JObj []),
         say (Warning_parse ''Claude/Cursor config'') (world_with [(cursor_path, ''not json'')]))
   \<and> adapter FlatPlain ''gitlab'' example_entry (JObj [])
      = Inr (JObj [(''mcpServers'', JObj [(''gitlab'', JObj example_entry)])])
   \<and> (\<exists>w'. update_target example_library FlatPlain cursor_path ''gitlab'' example_entry no_faults
               (world_with [(cursor_path, ''not json'')]) = (Inr True, w')
          \<and> Warning_parse ''Claude/Cursor config'' \<in> set (out w')
          \<and> files w' cursor_path
             = Some (json_dump example_library
                       (JObj [(''mcpServers'', JObj [(''gitlab'', JObj example_entry)])])
                     @ [CHR 0x0A]))"
proof -
  let ?w = "world_with [(cursor_path, ''not json'')]"
  have h1: "files ?w cursor_path = Some ''not json''" by (simp add: world_with_def)
  have h2: "\<not> read_fails no_faults" by (simp add: no_faults_def)
  have h3: "json_load example_library ''not json'' = JSONDecodeError"
    by (simp add: example_library_def theme_json_def)
  have h4: "path_name cursor_path \<noteq> []" by (simp add: path_name_def cursor_path_def)
  have io: "\<not> mkdir_fails no_faults" "config_write no_faults = Succeeds"
    by (simp_all add: no_faults_def)
  from corrupt_file_tolerance [OF h1 h2 h3 h4, of FlatPlain "''gitlab''" example_entry] io
  show ?thesis using h1 h2 h3 h4 by simp
qed

text \<open>
  The claim as stated fails for a file whose contents fail to parse with another
  exception: on bytes that are not UTF-8 \<open>json.load\<close> raises \<open>UnicodeDecodeError\<close>,
  which the \<open>except json.JSONDecodeError\<close> clause does not catch; the call raises it,
  prints no warning and writes nothing.
\<close>

theorem undecodable_file_counterexample:
  "files (world_with [(cursor_path, invalid_utf8)]) cursor_path = Some invalid_utf8
   \<and> json_load decoding_library invalid_utf8 = Load_raises UnicodeDecodeError
   \<and> update_target decoding_library FlatPlain cursor_path ''gitlab'' example_entry no_faults
        (world_with [(cursor_path, invalid_utf8)])
      = (Inl UnicodeDecodeError, \<lparr>files = [cursor_path \<mapsto> invalid_utf8], out = []\<rparr>)"
proof -
  let ?w = "world_with [(cursor_path, invalid_utf8)]"
  have w: "?w = \<lparr>files = [cursor_path \<mapsto> invalid_utf8], out = []\<rparr>"
    by (simp add: world_with_def)
  have h1: "files ?w cursor_path = Some invalid_utf8" by (simp add: world_with_def)
  have h2: "\<not> read_fails no_faults" by (simp add: no_faults_def)
  have h3: "json_load decoding_library invalid_utf8 = Load_raises UnicodeDecodeError"
    by (simp add: decoding_library_def)
  have "update_target decoding_library FlatPlain cursor_path ''gitlab'' example_entry no_faults ?w
          = (Inl UnicodeDecodeError, ?w)"
    using load_exception_propagates [OF h1 h2 h3] by (simp add: update_target_eq)
  with w h1 h3 show ?thesis by simp
qed

section \<open>The fallback of \<open>update_vscode\<close>\<close>

text \<open>
  Claim C9. With a workspace path and a user-settings path at hand: if the update of the
  workspace file returns \<open>True\<close>, \<open>update_vscode\<close> returns \<open>True\<close> in the world that call
  left, without a second call, and the user-settings file (a file other than the
  workspace file and its backup) holds what it held; if the update of the workspace file
  returns \<open>False\<close> or raises, \<open>update_vscode\<close> is one call of \<open>update_vscode_user\<close> at
  the user-settings path, in the world the failed call left, and returns what that call
  returns.
\<close>

theorem fallback_to_user_settings:
  assumes "vscode_workspace ps = Some wp" and "vscode_user_settings ps = Some up"
    and "update_vscode_workspace lib wp n e io_ws w = (r, w1)"
  shows "(r = Inr True \<longrightarrow> update_vscode lib ps n e io_ws io_user w = (Inr True, w1))
       \<and> (r \<noteq> Inr True \<longrightarrow>
            update_vscode lib ps n e io_ws io_user w = update_vscode_user lib up n e io_user w1)
       \<and> (r = Inr True \<and> up \<noteq> wp \<and> with_suffix wp ''.json.bak'' \<noteq> Inr up \<longrightarrow>
            files (snd (update_vscode lib ps n e io_ws io_user w)) up = files w up)"
proof -
  have frame: "files w1 up = files w up" if "up \<noteq> wp" "with_suffix wp ''.json.bak'' \<noteq> Inr up"
    using update_json_file_frame [OF assms(3) [unfolded update_vscode_workspace_def] that] .
  show ?thesis
  proof (cases r)
    case (Inl ex)
    then show ?thesis using assms by (simp add: update_vscode_def)
  next
    case (Inr ok)
    then show ?thesis using assms frame by (cases ok) (auto simp: update_vscode_def)
  qed
qed

text \<open>
  The theorem twice with the Linux paths: in the empty world the workspace update
  succeeds; with a workspace file that holds \<open>[]\<close> it raises and the user settings are
  updated instead.
\<close>

theorem fallback_to_user_settings_witness:
  "vscode_workspace example_paths = Some workspace_path
   \<and> vscode_user_settings example_paths = Some user_settings_path
   \<and> fst (update_vscode_workspace example_library workspace_path ''gitlab'' example_entry
            no_faults (world_with [])) = Inr True
   \<and> update_vscode example_library example_paths ''gitlab'' example_entry no_faults no_faults
        (world_with [])
      = (Inr True, snd (update_vscode_workspace example_library workspace_path ''gitlab''
                          example_entry no_faults (world_with [])))
   \<and> files (snd (update_vscode example_library example_paths ''gitlab'' example_entry no_faults
                   no_faults (world_with []))) user_settings_path = None
   \<and> fst (update_vscode_workspace example_library workspace_path ''gitlab'' example_entry
            no_faults (world_with [(workspace_path, ''[]'')])) = Inl TypeError
   \<and> update_vscode example_library example_paths ''gitlab'' example_entry no_faults no_faults
        (world_with [(workspace_path, ''[]'')])
      = update_vscode_user example_library user_settings_path ''gitlab'' example_entry no_faults
          (snd (update_vscode_workspace example_library workspace_path ''gitlab'' example_entry
                  no_faults (world_with [(workspace_path, ''[]'')])))"
proof -
  let ?ws = "\<lambda>w. update_vscode_workspace example_library workspace_path ''gitlab'' example_entry
                    no_faults w"
  let ?wa = "world_with []"
  let ?wb = "world_with [(workspace_path, ''[]'')]"
  have p1: "vscode_workspace example_paths = Some workspace_path"
    by (simp add: example_paths_def get_platform_paths_def workspace_path_def)
  have p2: "vscode_user_settings example_paths = Some user_settings_path"
    by (simp add: example_paths_def get_platform_paths_def user_settings_path_def)
  have a3: "?ws ?wa = (fst (?ws ?wa), snd (?ws ?wa))" by simp
  have ra: "fst (?ws ?wa) = Inr True" by (simp add: run_defs workspace_obj)
  have d1: "user_settings_path \<noteq> workspace_path"
    by (simp add: user_settings_path_def workspace_path_def)
  have d2: "with_suffix workspace_path ''.json.bak'' \<noteq> Inr user_settings_path"
    by (simp add: run_defs)
  have none: "files ?wa user_settings_path = None" by (simp add: world_with_def)
  note a = fallback_to_user_settings [OF p1 p2 a3, of no_faults]
  from a ra have c1: "update_vscode example_library example_paths ''gitlab'' example_entry
      no_faults no_faults ?wa = (Inr True, snd (?ws ?wa))" by blast
  from a ra d1 d2 none have c2: "files (snd (update_vscode example_library example_paths
      ''gitlab'' example_entry no_faults no_faults ?wa)) user_settings_path = None" by metis
  have b3: "?ws ?wb = (fst (?ws ?wb), snd (?ws ?wb))" by simp
  have rb: "fst (?ws ?wb) = Inl TypeError"
    by (simp add: run_defs update_in_vscode_workspace_def ensure_dict_def exn_bind_def
        setitem_in_def)
  then have nb: "fst (?ws ?wb) \<noteq> Inr True" by simp
  note b = fallback_to_user_settings [OF p1 p2 b3, of no_faults]
  from b nb have c3: "update_vscode example_library example_paths ''gitlab'' example_entry
      no_faults no_faults ?wb
      = update_vscode_user example_library user_settings_path ''gitlab'' example_entry no_faults
          (snd (?ws ?wb))" by blast
  from p1 p2 ra c1 c2 rb c3 show ?thesis by blast
qed

section \<open>A document that is not an object\<close>

lemma non_object_raises:
  assumes "files w p = Some b" and "\<not> read_fails io" and "json_load lib b = Parsed data"
    and "\<forall>d. data \<noteq> JObj d" and "with_suffix p ''.json.bak'' = Inr bp"
  shows "\<exists>w'. update_target lib k p n e io w = (Inl TypeError, w') \<and> files w' p = Some b
           \<and> (backup_write io = Succeeds \<longrightarrow> files w' bp = Some b)
           \<and> (out w' = out w \<or> out w' = out w @ [Warning_backup])"
proof -
  from backup_step_exists [OF assms(1,5), of io] obtain w2 where
    b: "backup_step p io w = (Inr (), w2)" and "files w2 p = Some b"
    and "backup_write io = Succeeds \<longrightarrow> files w2 bp = Some b \<and> out w2 = out w"
    and "out w2 = out w \<or> out w2 = out w @ [Warning_backup]" by blast
  moreover have "update_target lib k p n e io w = (Inl TypeError, w2)"
    by (simp add: update_target_eq update_json_file_def read_step_parsed [OF assms(1,2,3)] b
        adapter_not_obj [OF assms(4)])
  ultimately show ?thesis by blast
qed

lemma update_claude_config_eq:
  "update_claude_config lib p n e cc io w
     = update_target lib (if cc then FlatWithTypeTag else FlatPlain) p n e io w"
  by simp

text \<open>
  Claim C10, as amended. If the target file exists, is read and parses as valid JSON whose
  top level is not an object, the document is not replaced by the empty one: the adapter
  raises \<open>TypeError\<close>, which propagates out of \<open>update_json_file\<close>; nothing is printed
  but, when the backup copy failed, the backup warning (so no parse warning); the target
  file's bytes are unchanged; and when the backup copy succeeded the \<open>.bak\<close> sibling
  holds those bytes. For the Claude Desktop, Claude Code and Cursor targets
  \<open>update_environment\<close> catches the exception and reports the pair as failed. For the
  VS Code target \<open>update_vscode\<close> swallows the exception of the workspace file and
  \<open>update_environment\<close> reports what the user-settings fallback returns.
\<close>

theorem non_object_document:
  assumes "files w p = Some b" and "\<not> read_fails io" and "json_load lib b = Parsed data"
    and "\<forall>d. data \<noteq> JObj d" and "path_name p \<noteq> []"
  shows "(\<exists>w' bp. update_target lib k p n e io w = (Inl TypeError, w') \<and> files w' p = Some b
            \<and> with_suffix p ''.json.bak'' = Inr bp
            \<and> (backup_write io = Succeeds \<longrightarrow> files w' bp = Some b)
            \<and> (out w' = out w \<or> out w' = out w @ [Warning_backup]))
       \<and> (claude_desktop ps = Some p \<longrightarrow>
            \<not> fst (update_environment lib ''Claude Desktop'' ps n e io io2 w))
       \<and> (claude_code ps = Some p \<longrightarrow>
            \<not> fst (update_environment lib ''Claude Code'' ps n e io io2 w))
       \<and> (cursor ps = Some p \<longrightarrow>
            \<not> fst (update_environment lib ''Cursor'' ps n e io io2 w))
       \<and> (vscode_workspace ps = Some p \<and> vscode_user_settings ps = Some up \<longrightarrow>
            fst (update_environment lib ''VS Code'' ps n e io io2 w)
              = (fst (update_vscode_user lib up n e io2
                       (snd (update_vscode_workspace lib p n e io
                               (say (Configuring ''VS Code'') w))))
                 = Inr True))"
proof -
  from with_suffix_ok [OF assms(5)] obtain bp where bp: "with_suffix p ''.json.bak'' = Inr bp"
    by blast
  have raises: "\<exists>w'. update_target lib k' p n e io w0 = (Inl TypeError, w')"
    if "files w0 = files w" for k' w0
    using non_object_raises [OF _ assms(2,3,4) bp, of w0 k'] assms(1) that by auto
  have first: "\<exists>w' bp. update_target lib k p n e io w = (Inl TypeError, w') \<and> files w' p = Some b
            \<and> with_suffix p ''.json.bak'' = Inr bp
            \<and> (backup_write io = Succeeds \<longrightarrow> files w' bp = Some b)
            \<and> (out w' = out w \<or> out w' = out w @ [Warning_backup])"
    using non_object_raises [OF assms(1,2,3,4) bp, of k] bp by blast
  have claude: "\<not> fst (update_environment lib env ps n e io io2 w)"
    if "env \<noteq> ''VS Code''"
      and "attempt_environment lib env ps n e io io2 (say (Configuring env) w)
             = (case update_claude_config lib p n e cc io (say (Configuring env) w) of
                   (Inl ex, w1) \<Rightarrow> (Inl ex, w1)
                 | (Inr success, w1) \<Rightarrow> (Inr (success, None), w1))" for env cc
  proof -
    from raises [of "say (Configuring env) w" "if cc then FlatWithTypeTag else FlatPlain"]
    obtain w' where
      "update_claude_config lib p n e cc io (say (Configuring env) w) = (Inl TypeError, w')"
      by (auto simp del: update_target.simps simp: update_claude_config_eq)
    with that(2) show ?thesis by (simp add: update_environment_def Let_def)
  qed
  have desktop: "claude_desktop ps = Some p \<longrightarrow>
            \<not> fst (update_environment lib ''Claude Desktop'' ps n e io io2 w)"
    using claude [of "''Claude Desktop''" False] by (auto simp: attempt_environment_def)
  have code: "claude_code ps = Some p \<longrightarrow>
            \<not> fst (update_environment lib ''Claude Code'' ps n e io io2 w)"
    using claude [of "''Claude Code''" True] by (auto simp: attempt_environment_def)
  have cursor: "cursor ps = Some p \<longrightarrow>
            \<not> fst (update_environment lib ''Cursor'' ps n e io io2 w)"
    using claude [of "''Cursor''" False] by (auto simp: attempt_environment_def)
  have vscode: "vscode_workspace ps = Some p \<and> vscode_user_settings ps = Some up \<longrightarrow>
            fst (update_environment lib ''VS Code'' ps n e io io2 w)
              = (fst (update_vscode_user lib up n e io2
                       (snd (update_vscode_workspace lib p n e io
                               (say (Configuring ''VS Code'') w))))
                 = Inr True)"
  proof
    assume a: "vscode_workspace ps = Some p \<and> vscode_user_settings ps = Some up"
    let ?w0 = "say (Configuring ''VS Code'') w"
    from raises [of ?w0 WorkspaceNested] obtain w1 where
      ws: "update_vscode_workspace lib p n e io ?w0 = (Inl TypeError, w1)" by auto
    obtain r2 w2 where u: "update_vscode_user lib up n e io2 w1 = (r2, w2)"
      by (cases "update_vscode_user lib up n e io2 w1")
    have "update_vscode lib ps n e io io2 ?w0 = (r2, w2)"
      using a ws u by (simp add: update_vscode_def)
    then show "fst (update_environment lib ''VS Code'' ps n e io io2 w)
              = (fst (update_vscode_user lib up n e io2
                       (snd (update_vscode_workspace lib p n e io ?w0)))
                 = Inr True)"
      using ws u
      by (cases r2) (auto simp: update_environment_def attempt_environment_def Let_def)
  qed
  from first desktop code cursor vscode show ?thesis by blast
qed

text \<open>The theorem on a Cursor file that holds \<open>[]\<close>, with nothing failing.\<close>

theorem non_object_document_witness:
  "files (world_with [(cursor_path, ''[]'')]) cursor_path = Some ''[]''
   \<and> \<not> read_fails no_faults
   \<and> json_load example_library ''[]'' = Parsed (JArr [])
   \<and> path_name cursor_path \<noteq> []
   \<and> cursor example_paths = Some cursor_path
   \<and> (\<exists>w'. update_target example_library FlatPlain cursor_path ''gitlab'' example_entry no_faults
               (world_with [(cursor_path, ''[]'')]) = (Inl TypeError, w')
          \<and> files w' cursor_path = Some ''[]''
          \<and> files w' [''home'', ''dev'', ''.cursor'', ''mcp.json.bak''] = Some ''[]''
          \<and> out w' = [])
   \<and> \<not> fst (update_environment example_library ''Cursor'' example_paths ''gitlab'' example_entry
               no_faults no_faults (world_with [(cursor_path, ''[]'')]))"
proof -
  let ?w = "world_with [(cursor_path, ''[]'')]"
  have h1: "files ?w cursor_path = Some ''[]''" by (simp add: world_with_def)
  have h2: "\<not> read_fails no_faults" by (simp add: no_faults_def)
  have h3: "json_load example_library ''[]'' = Parsed (JArr [])"
    by (simp add: example_library_def)
  have h4: "\<forall>d. JArr [] \<noteq> JObj d" by simp
  have h5: "path_name cursor_path \<noteq> []" by (simp add: path_name_def cursor_path_def)
  have c: "cursor example_paths = Some cursor_path"
    by (simp add: example_paths_def get_platform_paths_def cursor_path_def)
  have bk: "backup_write no_faults = Succeeds" by (simp add: no_faults_def)
  have bp: "with_suffix cursor_path ''.json.bak''
              = Inr [''home'', ''dev'', ''.cursor'', ''mcp.json.bak'']"
    by (simp add: run_defs)
  have o: "out ?w = []" by (simp add: world_with_def)
  note t = non_object_document [OF h1 h2 h3 h4 h5,
      of FlatPlain "''gitlab''" example_entry example_paths no_faults]
  from t c have r: "\<not> fst (update_environment example_library ''Cursor'' example_paths ''gitlab''
      example_entry no_faults no_faults ?w)" by blast
  from t obtain w' bp' where
    w: "update_target example_library FlatPlain cursor_path ''gitlab'' example_entry no_faults ?w
          = (Inl TypeError, w')"
       "files w' cursor_path = Some ''[]''"
       "with_suffix cursor_path ''.json.bak'' = Inr bp'"
       "backup_write no_faults = Succeeds \<longrightarrow> files w' bp' = Some ''[]''"
       "out w' = out ?w \<or> out w' = out ?w @ [Warning_backup]"
    by blast
  from w(3) bp have "bp' = [''home'', ''dev'', ''.cursor'', ''mcp.json.bak'']" by simp
  with w(4) bk have f: "files w' [''home'', ''dev'', ''.cursor'', ''mcp.json.bak''] = Some ''[]''"
    by simp
  have "out w' = []"
  proof -
    from w(1) have "snd (update_target example_library FlatPlain cursor_path ''gitlab''
        example_entry no_faults ?w) = w'" by simp
    moreover have "out (snd (update_target example_library FlatPlain cursor_path ''gitlab''
        example_entry no_faults ?w)) = []"
      by (simp add: run_defs update_in_claude_config_def ensure_dict_def exn_bind_def)
    ultimately show ?thesis by simp
  qed
  with w(1,2) f have "\<exists>w'. update_target example_library FlatPlain cursor_path ''gitlab''
      example_entry no_faults ?w = (Inl TypeError, w')
      \<and> files w' cursor_path = Some ''[]''
      \<and> files w' [''home'', ''dev'', ''.cursor'', ''mcp.json.bak''] = Some ''[]''
      \<and> out w' = []" by blast
  with h1 h2 h3 h5 c r show ?thesis by blast
qed

text \<open>
  The claim as stated fails for the VS Code target: the workspace file holds \<open>[]\<close>, the
  update of the workspace file raises \<open>TypeError\<close>, \<open>update_vscode\<close> falls back to the
  user settings, which are written, and \<open>update_environment\<close> reports success.
\<close>

theorem vscode_fallback_counterexample:
  "files (world_with [(workspace_path, ''[]'')]) workspace_path = Some ''[]''
   \<and> json_load example_library ''[]'' = Parsed (JArr [])
   \<and> vscode_workspace example_paths = Some workspace_path
   \<and> fst (update_vscode_workspace example_library workspace_path ''gitlab'' example_entry
            no_faults (world_with [(workspace_path, ''[]'')])) = Inl TypeError
   \<and> fst (update_environment example_library ''VS Code'' example_paths ''gitlab'' example_entry
            no_faults no_faults (world_with [(workspace_path, ''[]'')]))"
  by (simp add: run_defs update_environment_def attempt_environment_def update_vscode_def
      example_paths_def get_platform_paths_def update_in_vscode_workspace_def ensure_dict_def
      exn_bind_def setitem_in_def user_obj)

section \<open>The entry builder\<close>

lemma get_binary_config_Inr:
  assumes "get_binary_config lib m root w = (Inr bc, w')"
  shows "bc_env bc = [] \<and> bc_mode bc = m
       \<and> (m = ''docker'' \<longrightarrow>
            bc_args bc = [''run'', ''-i'', ''--rm'', ''-e'', ''GITLAB_TOKEN'', ''-e'',
                          ''GITLAB_HOST'', ''gitlab-mcp-server:latest''])
       \<and> (m \<noteq> ''docker'' \<longrightarrow> bc_args bc = [''stdio''])"
  using assms by (auto simp: get_binary_config_def Let_def split: if_splits)

lemma add_readonly_env:
  "bc_env bc = [] \<Longrightarrow>
     bc_env (add_readonly s bc)
       = (if sd_readonly s then [(''GITLAB_READ_ONLY'', ''true'')] else [])"
  by (simp add: add_readonly_def Let_def)

lemmas build_defs =
  get_binary_config_def example_server_def prompt_gitlab_host_def docker_config_def
  local_config_def world_with_def example_library_def say_def Let_def

text \<open>
  Claim C6, as amended. For every entry that \<open>main\<close> builds, \<open>env\<close> maps \<open>GITLAB_TOKEN\<close>
  to the record's token, and \<open>env\<close> maps \<open>GITLAB_HOST\<close> to the record's host whenever
  that host is a non-empty string, the default \<open>https://gitlab.com\<close> included; no
  \<open>GITLAB_HOST\<close> entry is set only for an empty host, which the prompt never records,
  since it replaces an empty answer by the default.
\<close>

theorem token_and_host_entries:
  assumes "get_binary_config lib (sd_mode s) root w = (Inr bc, w')"
  shows "dict_get ''GITLAB_TOKEN'' (sc_env (create_server_config (add_readonly s bc) s))
           = Some (sd_token s)
       \<and> dict_get ''GITLAB_HOST'' (sc_env (create_server_config (add_readonly s bc) s))
           = (if sd_gitlab_host s = [] then None else Some (sd_gitlab_host s))
       \<and> prompt_gitlab_host host_input \<noteq> []
       \<and> prompt_gitlab_host [] = ''https://gitlab.com''"
proof -
  from get_binary_config_Inr [OF assms] have "bc_env bc = []" by simp
  then show ?thesis
    by (simp add: create_server_config_def Let_def add_readonly_env dict_get_set
        prompt_gitlab_host_def)
qed

text \<open>The theorem on a Docker record whose host is \<open>https://gitlab.example.org\<close>.\<close>

theorem token_and_host_entries_witness:
  "get_binary_config example_library
     (sd_mode (example_server ''docker'' ''https://gitlab.example.org'' False)) [''repo'']
     (world_with [])
     = (Inr docker_config, world_with [])
   \<and> dict_get ''GITLAB_TOKEN''
        (sc_env (create_server_config
           (add_readonly (example_server ''docker'' ''https://gitlab.example.org'' False)
              docker_config)
           (example_server ''docker'' ''https://gitlab.example.org'' False)))
      = Some ''t''
   \<and> dict_get ''GITLAB_HOST''
        (sc_env (create_server_config
           (add_readonly (example_server ''docker'' ''https://gitlab.example.org'' False)
              docker_config)
           (example_server ''docker'' ''https://gitlab.example.org'' False)))
      = Some ''https://gitlab.example.org''"
proof -
  let ?s = "example_server ''docker'' ''https://gitlab.example.org'' False"
  have h: "get_binary_config example_library (sd_mode ?s) [''repo''] (world_with [])
             = (Inr docker_config, world_with [])"
    by (simp add: build_defs)
  have s: "sd_token ?s = ''t''" "sd_gitlab_host ?s = ''https://gitlab.example.org''"
    by (simp_all add: example_server_def prompt_gitlab_host_def)
  from token_and_host_entries [OF h] s h show ?thesis by simp
qed

text \<open>
  The claim as stated fails at the default host: the record that the prompt makes of an
  empty host answer has the host \<open>https://gitlab.com\<close>, and the entry built from it
  carries \<open>GITLAB_HOST\<close>.
\<close>

theorem default_host_counterexample:
  "sd_gitlab_host (example_server ''docker'' [] False) = ''https://gitlab.com''
   \<and> get_binary_config example_library (sd_mode (example_server ''docker'' [] False))
        [''repo''] (world_with [])
      = (Inr docker_config, world_with [])
   \<and> dict_get ''GITLAB_HOST''
        (sc_env (create_server_config
           (add_readonly (example_server ''docker'' [] False) docker_config)
           (example_server ''docker'' [] False)))
      = Some ''https://gitlab.com''"
  by (simp add: build_defs create_server_config_def add_readonly_def dict_get_set)

text \<open>
  Claim C7. For every record with \<open>readonly\<close> set, the entry that \<open>main\<close> builds has
  \<open>GITLAB_READ_ONLY\<close> mapped to \<open>true\<close> in its \<open>env\<close> (in local mode, and in Docker
  mode as well); in Docker mode its \<open>args\<close> are those of the builder with the pair
  \<open>-e\<close>, \<open>GITLAB_READ_ONLY\<close> inserted immediately before the last argument, and that
  last argument is still the image tag.
\<close>

theorem read_only_propagation:
  assumes "sd_readonly s" and "get_binary_config lib (sd_mode s) root w = (Inr bc, w')"
  shows "dict_get ''GITLAB_READ_ONLY'' (sc_env (create_server_config (add_readonly s bc) s))
           = Some ''true''
       \<and> (sd_mode s = ''docker'' \<longrightarrow>
            sc_args (create_server_config (add_readonly s bc) s)
              = butlast (bc_args bc) @ [''-e'', ''GITLAB_READ_ONLY''] @ [last (bc_args bc)]
            \<and> last (bc_args bc) = ''gitlab-mcp-server:latest''
            \<and> sc_args (create_server_config (add_readonly s bc) s)
              = [''run'', ''-i'', ''--rm'', ''-e'', ''GITLAB_TOKEN'', ''-e'', ''GITLAB_HOST'',
                 ''-e'', ''GITLAB_READ_ONLY'', ''gitlab-mcp-server:latest''])"
proof -
  note g = get_binary_config_Inr [OF assms(2)]
  have env: "dict_get ''GITLAB_READ_ONLY'' (sc_env (create_server_config (add_readonly s bc) s))
           = Some ''true''"
    using assms(1) by (simp add: create_server_config_def Let_def dict_get_set)
  have args: "sc_args (create_server_config (add_readonly s bc) s)
              = [''run'', ''-i'', ''--rm'', ''-e'', ''GITLAB_TOKEN'', ''-e'', ''GITLAB_HOST'',
                 ''-e'', ''GITLAB_READ_ONLY'', ''gitlab-mcp-server:latest'']"
    if "sd_mode s = ''docker''"
    using that g assms(1)
    by (simp add: create_server_config_def add_readonly_def list_insert_def Let_def)
  show ?thesis using env args g by auto
qed

text \<open>
  The theorem twice: on a local record, with the binary in place, and on a Docker record.
\<close>

theorem read_only_propagation_witness:
  "sd_readonly (example_server ''local'' [] True)
   \<and> get_binary_config example_library (sd_mode (example_server ''local'' [] True)) [''repo'']
        (world_with [([''repo'', ''bin'', ''gitlab-mcp-server''], ''ELF'')])
      = (Inr local_config, world_with [([''repo'', ''bin'', ''gitlab-mcp-server''], ''ELF'')])
   \<and> dict_get ''GITLAB_READ_ONLY''
        (sc_env (create_server_config
           (add_readonly (example_server ''local'' [] True) local_config)
           (example_server ''local'' [] True)))
      = Some ''true''
   \<and> sd_readonly (example_server ''docker'' [] True)
   \<and> sd_mode (example_server ''docker'' [] True) = ''docker''
   \<and> get_binary_config example_library (sd_mode (example_server ''docker'' [] True)) [''repo'']
        (world_with [])
      = (Inr docker_config, world_with [])
   \<and> sc_args (create_server_config
        (add_readonly (example_server ''docker'' [] True) docker_config)
        (example_server ''docker'' [] True))
      = [''run'', ''-i'', ''--rm'', ''-e'', ''GITLAB_TOKEN'', ''-e'', ''GITLAB_HOST'',
         ''-e'', ''GITLAB_READ_ONLY'', ''gitlab-mcp-server:latest'']"
proof -
  let ?l = "example_server ''local'' [] True"
  let ?d = "example_server ''docker'' [] True"
  let ?w = "world_with [([''repo'', ''bin'', ''gitlab-mcp-server''], ''ELF'')]"
  have l1: "sd_readonly ?l" by (simp add: example_server_def)
  have l2: "get_binary_config example_library (sd_mode ?l) [''repo''] ?w = (Inr local_config, ?w)"
    by (simp add: build_defs)
  have d1: "sd_readonly ?d" by (simp add: example_server_def)
  have d2: "get_binary_config example_library (sd_mode ?d) [''repo''] (world_with [])
              = (Inr docker_config, world_with [])"
    by (simp add: build_defs)
  have d3: "sd_mode ?d = ''docker''" by (simp add: example_server_def)
  from read_only_propagation [OF l1 l2]
  have a: "dict_get ''GITLAB_READ_ONLY''
             (sc_env (create_server_config (add_readonly ?l local_config) ?l)) = Some ''true''"
    by blast
  from read_only_propagation [OF d1 d2] d3
  have b: "sc_args (create_server_config (add_readonly ?d docker_config) ?d)
      = [''run'', ''-i'', ''--rm'', ''-e'', ''GITLAB_TOKEN'', ''-e'', ''GITLAB_HOST'',
         ''-e'', ''GITLAB_READ_ONLY'', ''gitlab-mcp-server:latest'']"
    by blast
  from l1 l2 a d1 d3 d2 b show ?thesis by blast
qed

text \<open>
  Claim C8. When the mode of the first server is local (any mode other than \<open>docker\<close>
  takes the local branch) and \<open>bin/gitlab-mcp-server\<close> under the project root does not
  exist, \<open>get_binary_config\<close> returns no configuration but exits with code 1, and the
  processing loop of \<open>main\<close> ends the run with that code having changed no file.
  \<open>collect_servers\<close> gives every server of a run the mode of the first.
\<close>

theorem local_binary_missing:
  assumes "sd_mode s \<noteq> ''docker''"
    and "files w (project_root @ [''bin'', ''gitlab-mcp-server'']) = None"
  shows "fst (get_binary_config lib (sd_mode s) project_root w) = Inl 1
       \<and> (\<exists>w'. process_servers lib project_root (s # servers) environments ps ioss w
                  = (Some 1, w')
                \<and> files w' = files w)"
  using assms by (simp add: get_binary_config_def Let_def)

text \<open>
  The theorem on a run with two local servers and two environments, in a world where a
  Cursor file exists and the binary does not.
\<close>

theorem local_binary_missing_witness:
  "sd_mode (example_server ''local'' [] False) \<noteq> ''docker''
   \<and> files (world_with [(cursor_path, theme_json)]) ([''repo''] @ [''bin'', ''gitlab-mcp-server''])
      = None
   \<and> fst (get_binary_config example_library (sd_mode (example_server ''local'' [] False))
            [''repo''] (world_with [(cursor_path, theme_json)])) = Inl 1
   \<and> (\<exists>w'. process_servers example_library [''repo'']
               [example_server ''local'' [] False, example_server ''local'' [] True]
               [''VS Code'', ''Cursor''] example_paths [] (world_with [(cursor_path, theme_json)])
             = (Some 1, w')
          \<and> files w' = files (world_with [(cursor_path, theme_json)]))"
proof -
  let ?s = "example_server ''local'' [] False"
  let ?w = "world_with [(cursor_path, theme_json)]"
  have h1: "sd_mode ?s \<noteq> ''docker''" by (simp add: example_server_def)
  have h2: "files ?w ([''repo''] @ [''bin'', ''gitlab-mcp-server'']) = None"
    by (simp add: world_with_def cursor_path_def)
  from local_binary_missing [OF h1 h2] h1 h2 show ?thesis by blast
qed

end
